theory Spec2Isabelle
  imports Main "HOL-Library.Word"
begin

unbundle bit_operations_syntax

text \<open>
  A shallow embedding of the captive-portal access point of the repository: the alarm
  control module, the HTTP server and page renderer, the console handlers of the two
  supervisor loops, the catch-all DNS server and the DHCP server. Bytes are \<open>8 word\<close>,
  C strings are \<open>string\<close> (the characters before the terminating NUL), every value the
  code obtains from outside (clock, lwIP return codes, received bytes, stale stack
  contents) is a parameter, and every call into hardware or lwIP is an event of a trace.
\<close>

type_synonym u8 = "8 word"
type_synonym u16 = "16 word"
type_synonym u32 = "32 word"
type_synonym u64 = "64 word"

section \<open>Alarm control (alarm\_control.c, app\_config.h)\<close>

definition LED_GREEN_GPIO :: nat where "LED_GREEN_GPIO = 11"
definition LED_BLUE_GPIO :: nat where "LED_BLUE_GPIO = 12"
definition LED_RED_GPIO :: nat where "LED_RED_GPIO = 13"
definition BUZZER_GPIO :: nat where "BUZZER_GPIO = 10"
definition ALARM_BLINK_INTERVAL_MS :: nat where "ALARM_BLINK_INTERVAL_MS = 500"

text \<open>lwIP's error codes (err.h), as far as the HTTP server names them.\<close>

definition ERR_OK :: int where "ERR_OK = 0"
definition ERR_ABRT :: int where "ERR_ABRT = - 13"
definition ERR_CLSD :: int where "ERR_CLSD = - 15"

text \<open>
  The calls that leave the program: the OLED update, a GPIO write, and the lwIP calls of
  the HTTP server. \<open>Tcp_close\<close> stands for the whole of \<open>tcp_close_client_connection\<close>
  on a live pcb (callbacks cleared, \<open>tcp_close\<close>, the connection state freed).
\<close>

datatype event =
    Oled_display_update_status bool
  | Gpio_put nat bool
  | Tcp_write string
  | Tcp_recved nat
  | Tcp_close
  | Tcp_abort

text \<open>The three static variables of alarm\_control.c.\<close>

record alarm_state =
  s_alarm_active :: bool
  s_alarm_output_toggle_state :: bool
  s_last_toggle_time_us :: u64

text \<open>\<open>now\<close> is what \<open>time_us_64()\<close> returns when the function reads it.\<close>

definition alarm_control_set_active :: "u64 \<Rightarrow> bool \<Rightarrow> alarm_state \<Rightarrow> alarm_state \<times> event list" where
  "alarm_control_set_active now active s =
     (if s_alarm_active s \<noteq> active then
        (if active then
           (s\<lparr>s_alarm_active := True, s_last_toggle_time_us := now,
              s_alarm_output_toggle_state := False\<rparr>,
            [Oled_display_update_status True, Gpio_put LED_GREEN_GPIO False])
         else
           (s\<lparr>s_alarm_active := False, s_alarm_output_toggle_state := False\<rparr>,
            [Oled_display_update_status False, Gpio_put LED_RED_GPIO False,
             Gpio_put BUZZER_GPIO False, Gpio_put LED_GREEN_GPIO True]))
      else (s, []))"

definition alarm_control_is_active :: "alarm_state \<Rightarrow> bool" where
  "alarm_control_is_active s = s_alarm_active s"

definition alarm_control_process :: "u64 \<Rightarrow> alarm_state \<Rightarrow> alarm_state \<times> event list" where
  "alarm_control_process now s =
     (if s_alarm_active s then
        (if now - s_last_toggle_time_us s \<ge> of_nat (ALARM_BLINK_INTERVAL_MS * 1000) then
           (let t = \<not> s_alarm_output_toggle_state s in
              (s\<lparr>s_alarm_output_toggle_state := t, s_last_toggle_time_us := now\<rparr>,
               [Gpio_put LED_RED_GPIO t, Gpio_put BUZZER_GPIO t]))
         else (s, []))
      else (s, []))"

section \<open>Page renderer and HTTP server (network\_manager.c)\<close>

subsection \<open>C library helpers\<close>

text \<open>The C string held by a buffer: the characters before the first NUL.\<close>

definition cstr :: "string \<Rightarrow> string" where
  "cstr buf = takeWhile (\<lambda>c. c \<noteq> CHR 0x00) buf"

text \<open>\<open>isspace\<close> in the C locale: space, \<open>\t\<close>, \<open>\n\<close>, \<open>\v\<close>, \<open>\f\<close>, \<open>\r\<close>.\<close>

definition isspace :: "char \<Rightarrow> bool" where
  "isspace c = (c = CHR 0x20 \<or> c = CHR 0x09 \<or> c = CHR 0x0A \<or> c = CHR 0x0B \<or> c = CHR 0x0C \<or> c = CHR 0x0D)"

text \<open>
  \<open>sscanf(params, "alarm=%s", alarm_command_str)\<close>: the literal characters of the format
  must match the start of the input one by one; \<open>%s\<close> then skips white space and takes
  the longest run of characters that are not white space. The call returns 1 exactly when
  that run is not empty; \<open>Some tok\<close> is that case, with the run it stores.
\<close>

definition sscanf_ALARM_PARAM_STR :: "string \<Rightarrow> string option" where
  "sscanf_ALARM_PARAM_STR params =
     (if take 6 params = ''alarm='' then
        (let tok = takeWhile (\<lambda>c. \<not> isspace c) (dropWhile isspace (drop 6 params))
         in if tok = [] then None else Some tok)
      else None)"

text \<open>\<open>%d\<close> of printf.\<close>

function dec_str :: "nat \<Rightarrow> string" where
  "dec_str n = (if n < 10 then [char_of (48 + n)] else dec_str (n div 10) @ [char_of (48 + n mod 10)])"
  by pat_completeness auto
termination
  by (relation "measure id") auto

definition printf_d :: "int \<Rightarrow> string" where
  "printf_d i = (if i < 0 then CHR ''-'' # dec_str (nat (- i)) else dec_str (nat i))"

text \<open>lwIP's \<open>ipaddr_ntoa\<close> on the four bytes of an IPv4 address: dotted decimal.\<close>

definition ipaddr_ntoa :: "u8 list \<Rightarrow> string" where
  "ipaddr_ntoa a =
     dec_str (unat (a ! 0)) @ ''.'' @ dec_str (unat (a ! 1)) @ ''.'' @
     dec_str (unat (a ! 2)) @ ''.'' @ dec_str (unat (a ! 3))"

definition ALARM_PAGE_BODY_0 :: string where
  \<open>ALARM_PAGE_BODY_0 =
     ''<html><head><title>Controle de Alarme</title><meta name="viewpor'' @
     ''t" content="width=device-width, initial-scale=1.0"></head><body>'' @
     ''<style>body{font-family: Arial, sans-serif; text-align: center; '' @
     ''margin-top: 50px;} h1{color: #333;} h2{color: #444; font-size: 1'' @
     ''.2em; margin-top: 0px;} p{color: #555;} .button {display: inline'' @
     ''-block; padding: 15px 25px; font-size: 20px; cursor: pointer; te'' @
     ''xt-align: center; text-decoration: none; outline: none; color: #'' @
     ''fff; border: none; border-radius: 15px; box-shadow: 0 9px #999;}'' @
     '' .button-on {background-color: #4CAF50;} .button-on:hover {backg'' @
     ''round-color: #3e8e41} .button-off {background-color: #f44336;} .'' @
     ''button-off:hover {background-color: #da190b} .status {font-weigh'' @
     ''t: bold; font-size: 22px;} .status-on {color: #f44336;} .status-'' @
     ''off {color: #4CAF50;}</style><h1>Simulador Portatil de Alarme</h'' @
     ''1><h2>Atividade 08 - Manoel</h2><p>Estado do Alarme: <strong cla'' @
     ''ss="status status-''\<close>

definition ALARM_PAGE_BODY_1 :: string where
  \<open>ALARM_PAGE_BODY_1 =
     ''">''\<close>

definition ALARM_PAGE_BODY_2 :: string where
  \<open>ALARM_PAGE_BODY_2 =
     ''</strong></p><p><a href="/?alarm=''\<close>

definition ALARM_PAGE_BODY_3 :: string where
  \<open>ALARM_PAGE_BODY_3 =
     ''" class="button button-''\<close>

definition ALARM_PAGE_BODY_4 :: string where
  \<open>ALARM_PAGE_BODY_4 =
     ''">''\<close>

definition ALARM_PAGE_BODY_5 :: string where
  \<open>ALARM_PAGE_BODY_5 =
     '' Alarme</a></p></body></html>''\<close>

subsection \<open>The page renderer\<close>

text \<open>
  \<open>snprintf\<close> with the format \<open>ALARM_PAGE_BODY\<close> and its five \<open>%s\<close> arguments: the whole
  formatted text, whose length is what \<open>snprintf\<close> returns.
\<close>

definition ALARM_PAGE_BODY :: "string \<Rightarrow> string \<Rightarrow> string \<Rightarrow> string \<Rightarrow> string \<Rightarrow> string" where
  "ALARM_PAGE_BODY a1 a2 a3 a4 a5 =
     ALARM_PAGE_BODY_0 @ a1 @ ALARM_PAGE_BODY_1 @ a2 @ ALARM_PAGE_BODY_2 @ a3 @
     ALARM_PAGE_BODY_3 @ a4 @ ALARM_PAGE_BODY_4 @ a5 @ ALARM_PAGE_BODY_5"

text \<open>
  A write past the end of a fixed buffer, or a read past the end of an object, is
  undefined behaviour in C; the model stops with a fault instead of inventing a result.
\<close>

datatype c_fault = Buffer_overflow | Out_of_bounds_read

text \<open>
  \<open>params\<close> is \<open>None\<close> for a NULL pointer. \<open>alarm_command_str\<close> has room for three
  characters and the NUL, and \<open>%s\<close> carries no width: a longer token overflows it.
  The result is the new alarm state, the hardware events, and the formatted page.
\<close>

definition http_generate_page_content ::
    "u64 \<Rightarrow> string option \<Rightarrow> alarm_state \<Rightarrow> c_fault + (alarm_state \<times> event list \<times> string)" where
  "http_generate_page_content now params s =
     (let cmd =
        (case params of
           None \<Rightarrow> Inr (s, [])
         | Some ps \<Rightarrow>
             (case sscanf_ALARM_PARAM_STR ps of
                None \<Rightarrow> Inr (s, [])
              | Some alarm_command_str \<Rightarrow>
                  if length alarm_command_str > 3 then Inl Buffer_overflow
                  else if alarm_command_str = ''on'' then
                    (if \<not> alarm_control_is_active s
                     then Inr (alarm_control_set_active now True s) else Inr (s, []))
                  else if alarm_command_str = ''off'' then
                    (if alarm_control_is_active s
                     then Inr (alarm_control_set_active now False s) else Inr (s, []))
                  else Inr (s, [])))
      in case cmd of
           Inl f \<Rightarrow> Inl f
         | Inr (s', evs) \<Rightarrow>
             (let is_active = alarm_control_is_active s';
                  current_status_str = (if is_active then ''LIGADO'' else ''DESLIGADO'');
                  status_class_suffix = (if is_active then ''on'' else ''off'');
                  next_action_param = (if is_active then ''off'' else ''on'');
                  button_text = (if is_active then ''Desligar'' else ''Ligar'');
                  button_class_suffix = (if is_active then ''off'' else ''on'')
              in Inr (s', evs,
                      ALARM_PAGE_BODY status_class_suffix current_status_str
                        next_action_param button_class_suffix button_text)))"

subsection \<open>The TCP callbacks\<close>

definition HTTP_RESPONSE_HEADERS :: "int \<Rightarrow> int \<Rightarrow> string" where
  "HTTP_RESPONSE_HEADERS status len =
     ''HTTP/1.1 '' @ printf_d status @ '' OK'' @ [CHR 0x0A] @
     ''Content-Length: '' @ printf_d len @ [CHR 0x0A] @
     ''Content-Type: text/html; charset=utf-8'' @ [CHR 0x0A] @
     ''Connection: close'' @ [CHR 0x0A, CHR 0x0A]"

definition HTTP_RESPONSE_REDIRECT_TO_ROOT :: "string \<Rightarrow> string" where
  "HTTP_RESPONSE_REDIRECT_TO_ROOT host =
     ''HTTP/1.1 302 Redirect'' @ [CHR 0x0A] @
     ''Location: http://'' @ host @ ''/'' @ [CHR 0x0A, CHR 0x0A]"

text \<open>
  \<open>TCP_CONNECT_STATE_T\<close> without the pcb handle. \<open>headers\<close> and \<open>result\<close> hold the C
  strings of the two buffers (128 and 1500 bytes); \<open>gw\<close> holds the four bytes of the
  address the pointer refers to.
\<close>

record TCP_CONNECT_STATE_T =
  sent_len :: int
  headers :: string
  result :: string
  header_len :: int
  result_len :: int
  gw :: "u8 list"

text \<open>
  \<open>tcp_close_client_connection\<close> for a live pcb: \<open>close_res\<close> is what lwIP's
  \<open>tcp_close\<close> returns. The connection state is freed; the function returns the events
  and its return code.
\<close>

definition tcp_close_client_connection :: "int \<Rightarrow> int \<Rightarrow> event list \<times> int" where
  "tcp_close_client_connection close_res close_err =
     (if close_res \<noteq> ERR_OK then ([Tcp_close, Tcp_abort], ERR_ABRT) else ([Tcp_close], close_err))"

text \<open>
  A callback returns the connection state (\<open>None\<close> once freed), the trace of its calls
  and its return code.
\<close>

text \<open>
  \<open>sent_len\<close>, \<open>header_len\<close> and \<open>result_len\<close> are C \<open>int\<close>s of 32 bits. \<open>int_add\<close> is
  their sum as the target computes it, in two's complement: past \<open>INT_MAX\<close> it wraps to
  a negative number (the C standard leaves that case undefined).
\<close>

definition int_add :: "int \<Rightarrow> int \<Rightarrow> int" where
  "int_add x y = signed_take_bit 31 (x + y)"

definition tcp_server_sent ::
    "int \<Rightarrow> TCP_CONNECT_STATE_T \<Rightarrow> u16 \<Rightarrow> TCP_CONNECT_STATE_T option \<times> event list \<times> int" where
  "tcp_server_sent close_res con_state len =
     (let c = con_state\<lparr>sent_len := int_add (sent_len con_state) (uint len)\<rparr>
      in if sent_len c \<ge> int_add (header_len c) (result_len c) then
           (let (evs, r) = tcp_close_client_connection close_res ERR_OK in (None, evs, r))
         else (Some c, [], ERR_OK))"

definition tcp_server_poll :: "int \<Rightarrow> TCP_CONNECT_STATE_T \<Rightarrow> TCP_CONNECT_STATE_T option \<times> event list \<times> int" where
  "tcp_server_poll close_res con_state =
     (let (evs, r) = tcp_close_client_connection close_res ERR_OK in (None, evs, r))"

text \<open>
  The request target the callback isolates in \<open>headers\<close>: past the three characters of
  \<open>GET\<close> and any spaces, up to the next space (\<open>full_request_path_and_params\<close> after
  the NUL is stored at \<open>http_version_start\<close>); its part before the first \<open>?\<close>
  (\<open>actual_path\<close>) and, when there is a \<open>?\<close>, the part after it (\<open>params\<close>).
\<close>

definition request_target :: "string \<Rightarrow> string" where
  "request_target hdr =
     takeWhile (\<lambda>c. c \<noteq> CHR 0x20) (dropWhile (\<lambda>c. c = CHR 0x20) (drop 3 hdr))"

definition request_path :: "string \<Rightarrow> string" where
  "request_path target = takeWhile (\<lambda>c. c \<noteq> CHR ''?'') target"

definition request_params :: "string \<Rightarrow> string option" where
  "request_params target =
     (if CHR ''?'' \<in> set target then Some (tl (dropWhile (\<lambda>c. c \<noteq> CHR ''?'') target))
      else None)"

text \<open>
  The common tail of \<open>tcp_server_recv\<close> once \<open>header_len\<close> and \<open>result_len\<close> are set:
  the check of the header length, the two \<open>tcp_write\<close> calls (\<open>write_hdr_res\<close> and
  \<open>write_body_res\<close> are what lwIP returns for them; a write that fails queues nothing
  and leaves no \<open>Tcp_write\<close> event) and \<open>tcp_recved\<close>.
\<close>

definition tcp_server_recv_send ::
    "int \<Rightarrow> int \<Rightarrow> int \<Rightarrow> nat \<Rightarrow> TCP_CONNECT_STATE_T \<Rightarrow>
     TCP_CONNECT_STATE_T option \<times> event list \<times> int" where
  "tcp_server_recv_send write_hdr_res write_body_res close_res tot_len c =
     (if header_len c \<ge> 127 then
        (let (evs, r) = tcp_close_client_connection close_res ERR_CLSD in (None, evs, r))
      else
        (let c1 = c\<lparr>sent_len := 0\<rparr> in
         if write_hdr_res \<noteq> ERR_OK then
           (let (evs, r) = tcp_close_client_connection close_res write_hdr_res in (None, evs, r))
         else
           (let w1 = [Tcp_write (take (nat (header_len c1)) (headers c1))] in
            if result_len c1 > 0 then
              (if write_body_res \<noteq> ERR_OK then
                 (let (evs, r) = tcp_close_client_connection close_res write_body_res
                  in (None, w1 @ evs, r))
               else
                 (Some c1,
                  w1 @ [Tcp_write (take (nat (result_len c1)) (result c1)), Tcp_recved tot_len],
                  ERR_OK))
            else (Some c1, w1 @ [Tcp_recved tot_len], ERR_OK))))"

text \<open>
  \<open>p\<close> is \<open>None\<close> for a NULL pbuf (the peer closed), else the bytes of the pbuf chain
  (\<open>tot_len\<close> is their number); \<open>now\<close> is the clock \<open>alarm_control_set_active\<close> reads.
  The result also carries the alarm state, which the page renderer may change.
\<close>

definition tcp_server_recv ::
    "int \<Rightarrow> int \<Rightarrow> int \<Rightarrow> u64 \<Rightarrow> TCP_CONNECT_STATE_T \<Rightarrow> alarm_state \<Rightarrow> string option \<Rightarrow>
     c_fault + (TCP_CONNECT_STATE_T option \<times> alarm_state \<times> event list \<times> int)" where
  "tcp_server_recv write_hdr_res write_body_res close_res now con_state a p =
     (case p of
        None \<Rightarrow>
          (let (evs, r) = tcp_close_client_connection close_res ERR_OK in Inr (None, a, evs, r))
      | Some data \<Rightarrow>
          if length data > 0 then
            (let copy_len = (if length data > 127 then 127 else length data);
                 hdr = cstr (take copy_len data)
             in if take 3 hdr = ''GET'' then
                  (let target = request_target hdr;
                       params = request_params target;
                       actual_path = request_path target
                   in if actual_path = ''/'' then
                        (case http_generate_page_content now params a of
                           Inl f \<Rightarrow> Inl f
                         | Inr (a', evs, body) \<Rightarrow>
                             if length body \<ge> 1499 then
                               (let (cevs, r) = tcp_close_client_connection close_res ERR_CLSD
                                in Inr (None, a', evs @ cevs, r))
                             else
                               (let hs = HTTP_RESPONSE_HEADERS 200 (int (length body));
                                    c = con_state\<lparr>result := body, result_len := int (length body),
                                          headers := take 127 hs, header_len := int (length hs)\<rparr>;
                                    (c', sevs, r) = tcp_server_recv_send write_hdr_res
                                          write_body_res close_res (length data) c
                                in Inr (c', a', evs @ sevs, r)))
                      else
                        (let hs = HTTP_RESPONSE_REDIRECT_TO_ROOT (ipaddr_ntoa (gw con_state));
                             c = con_state\<lparr>result_len := 0,
                                   headers := take 127 hs, header_len := int (length hs)\<rparr>;
                             (c', sevs, r) = tcp_server_recv_send write_hdr_res
                                   write_body_res close_res (length data) c
                         in Inr (c', a, sevs, r)))
                else Inr (Some (con_state\<lparr>headers := hdr\<rparr>), a, [Tcp_recved (length data)], ERR_OK))
          else Inr (Some con_state, a, [], ERR_OK))"

section \<open>Console handlers of the supervisor loops\<close>

text \<open>
  Atividade\_08.c: \<open>TCP_SERVER_T\<close>, of which the handler reads and writes only
  \<open>complete\<close> (the listening pcb and the gateway address are left out). \<open>param\<close> is
  \<open>None\<close> for a NULL pointer and \<open>key\<close> is what \<open>getchar_timeout_us(0)\<close> returns.
\<close>

record TCP_SERVER_T =
  complete :: bool

definition key_pressed_func :: "TCP_SERVER_T option \<Rightarrow> int \<Rightarrow> TCP_SERVER_T option" where
  "key_pressed_func param key =
     (case param of
        None \<Rightarrow> None
      | Some state \<Rightarrow>
          if (key = of_char (CHR ''d'') \<or> key = of_char (CHR ''D'')) \<and> \<not> complete state
          then Some (state\<lparr>complete := True\<rparr>) else Some state)"

text \<open>
  Atividade\_02.c and wifi\_ap.c: the static \<open>net\<close> (its two server instances left out)
  and the console poll of the main loop; \<open>c\<close> is what \<open>getchar_timeout_us(0)\<close> returns.
\<close>

record wifi_ap_net =
  shutdown :: bool

definition wifi_ap_request_shutdown :: "wifi_ap_net \<Rightarrow> wifi_ap_net" where
  "wifi_ap_request_shutdown net = net\<lparr>shutdown := True\<rparr>"

definition wifi_ap_must_shutdown :: "wifi_ap_net \<Rightarrow> bool" where
  "wifi_ap_must_shutdown net = shutdown net"

definition main_poll_console :: "int \<Rightarrow> wifi_ap_net \<Rightarrow> wifi_ap_net" where
  "main_poll_console c net =
     (if c = of_char (CHR ''q'') \<or> c = of_char (CHR ''Q'') then wifi_ap_request_shutdown net
      else net)"

section \<open>Bytes, words and datagrams\<close>

text \<open>
  The target (RP2040, Cortex-M0+) is little-endian: a \<open>uint32_t\<close> lies in memory as its
  four bytes, least significant first, and a \<open>uint16_t\<close> as its two. lwIP's byte order
  macros (def.h) are the ones for \<open>BYTE_ORDER == LITTLE_ENDIAN\<close>.
\<close>

definition u32_bytes :: "u32 \<Rightarrow> u8 list" where
  "u32_bytes v = [ucast v, ucast (drop_bit 8 v), ucast (drop_bit 16 v), ucast (drop_bit 24 v)]"

definition u16_bytes :: "u16 \<Rightarrow> u8 list" where
  "u16_bytes v = [ucast v, ucast (drop_bit 8 v)]"

definition u16_load :: "u8 \<Rightarrow> u8 \<Rightarrow> u16" where
  "u16_load b0 b1 = ucast b0 OR push_bit 8 (ucast b1)"

definition PP_HTONS :: "u16 \<Rightarrow> u16" where
  "PP_HTONS x = push_bit 8 (x AND 0x00ff) OR drop_bit 8 (x AND 0xff00)"

definition lwip_htonl :: "u32 \<Rightarrow> u32" where
  "lwip_htonl x =
     push_bit 24 (x AND 0x000000ff) OR push_bit 8 (x AND 0x0000ff00) OR
     drop_bit 8 (x AND 0x00ff0000) OR drop_bit 24 (x AND 0xff000000)"

definition LWIP_MAKEU32 :: "u8 \<Rightarrow> u8 \<Rightarrow> u8 \<Rightarrow> u8 \<Rightarrow> u32" where
  "LWIP_MAKEU32 a b c d =
     push_bit 24 (ucast a) OR push_bit 16 (ucast b) OR push_bit 8 (ucast c) OR ucast d"

text \<open>
  \<open>IP4_ADDR(ipaddr, a, b, c, d)\<close> stores \<open>PP_HTONL(LWIP_MAKEU32(a, b, c, d))\<close> in
  \<open>ipaddr->addr\<close>: the word whose bytes in memory are \<open>a, b, c, d\<close>. An \<open>ip_addr_t\<close> is
  modelled by this word, which is also what \<open>ip4_addr_get_u32\<close> returns.
\<close>

definition IP4_ADDR :: "u8 \<Rightarrow> u8 \<Rightarrow> u8 \<Rightarrow> u8 \<Rightarrow> u32" where
  "IP4_ADDR a b c d = lwip_htonl (LWIP_MAKEU32 a b c d)"

text \<open>
  \<open>pbuf_copy_partial(p, buf, len, 0)\<close> on a local array \<open>buf\<close> of \<open>len\<close> bytes: the first
  \<open>len\<close> bytes of the datagram overwrite the start of the array, whose other bytes keep
  what the stack held before (\<open>stack\<close>); the result is the array and the number of bytes
  copied.
\<close>

definition pbuf_copy_partial :: "u8 list \<Rightarrow> nat \<Rightarrow> u8 list \<Rightarrow> u8 list \<times> nat" where
  "pbuf_copy_partial pkt len stack =
     (take len pkt @ drop (min len (length pkt)) stack, min len (length pkt))"

text \<open>Storing the bytes \<open>bs\<close> into a buffer from offset \<open>off\<close> on.\<close>

definition write_bytes :: "u8 list \<Rightarrow> nat \<Rightarrow> u8 list \<Rightarrow> u8 list" where
  "write_bytes buf off bs = take off buf @ bs @ drop (off + length bs) buf"

text \<open>
  What a server hands to \<open>udp_sendto\<close>: the payload, and the destination address (as
  the \<open>addr\<close> word of its \<open>ip_addr_t\<close>) and port.
\<close>

record udp_sendto =
  payload :: "u8 list"
  dest_addr :: u32
  dest_port :: u16

section \<open>DNS server (dnsserver.c)\<close>

definition MAX_DNS_MSG_SIZE :: nat where "MAX_DNS_MSG_SIZE = 300"

text \<open>\<open>dns_server_t\<close> without the pcb handle.\<close>

record dns_server_t =
  ip :: u32

text \<open>
  \<open>lwip_ntohs\<close> of a 16-bit header field at offset \<open>off\<close>: the two bytes read in network
  order, whatever the byte order of the host.
\<close>

definition dns_hdr_field :: "u8 list \<Rightarrow> nat \<Rightarrow> u16" where
  "dns_hdr_field dns_msg off = PP_HTONS (u16_load (dns_msg ! off) (dns_msg ! (off + 1)))"

text \<open>
  The loop that walks the labels of the question name, by offsets into \<open>dns_msg\<close>;
  \<open>None\<close> is the jump to \<open>ignore_request\<close> on a label longer than 63.
\<close>

function skip_question_name :: "u8 list \<Rightarrow> nat \<Rightarrow> nat \<Rightarrow> nat option" where
  "skip_question_name dns_msg question_ptr question_ptr_end =
     (if question_ptr < question_ptr_end then
        (if dns_msg ! question_ptr = 0 then Some (question_ptr + 1)
         else
           (let label_len = unat (dns_msg ! question_ptr) in
            if label_len > 63 then None
            else skip_question_name dns_msg (question_ptr + 1 + label_len) question_ptr_end))
      else Some question_ptr)"
  by pat_completeness auto
termination
  by (relation "measure (\<lambda>(m, p, e). e - p)") auto

text \<open>
  \<open>stack\<close> is what the 300 bytes of \<open>dns_msg\<close> held before the copy, \<open>pkt\<close> the received
  datagram. \<open>None\<close> is a dropped datagram; otherwise the result is the datagram passed
  to \<open>dns_socket_sendto\<close>.
\<close>

definition dns_server_process :: "dns_server_t \<Rightarrow> u8 list \<Rightarrow> u8 list \<Rightarrow> u32 \<Rightarrow> u16 \<Rightarrow> udp_sendto option" where
  "dns_server_process d stack pkt src_addr src_port =
     (let (dns_msg, msg_len) = pbuf_copy_partial pkt MAX_DNS_MSG_SIZE stack in
      if msg_len < 12 then None
      else
        (let flags = dns_hdr_field dns_msg 2;
             question_count = dns_hdr_field dns_msg 4
         in if (drop_bit 15 flags) AND 0x1 \<noteq> 0 then None
            else if (drop_bit 11 flags) AND 0xf \<noteq> 0 then None
            else if question_count < 1 then None
            else
              (case skip_question_name dns_msg 12 msg_len of
                 None \<Rightarrow> None
               | Some question_ptr \<Rightarrow>
                   if question_ptr - 12 > 255 then None
                   else
                     (let answer_ptr = question_ptr + 4;
                          m1 = write_bytes dns_msg answer_ptr
                                 ([0xc0, 12, 0, 1, 0, 1, 0, 0, 0, 60, 0, 4] @ u32_bytes (ip d));
                          m2 = write_bytes m1 2
                                 (u16_bytes (PP_HTONS (push_bit 15 0x1 OR push_bit 10 0x1 OR
                                                       push_bit 7 0x1)) @
                                  u16_bytes (PP_HTONS 1) @ u16_bytes (PP_HTONS 1) @
                                  u16_bytes 0 @ u16_bytes 0);
                          len = answer_ptr + 16
                      in Some \<lparr>payload = take (if len > 0xffff then 0xffff else len) m2,
                               dest_addr = src_addr, dest_port = src_port\<rparr>))))"

text \<open>
  The wire form of a domain name (RFC 1035): every label preceded by its length, then a
  zero byte. It serves to say what a well-formed question is.
\<close>

definition dns_encode_name :: "u8 list list \<Rightarrow> u8 list" where
  "dns_encode_name labels = concat (map (\<lambda>l. of_nat (length l) # l) labels) @ [0]"

section \<open>DHCP server (dhcpserver.c, dhcpserver.h)\<close>

definition DHCPDISCOVER :: u8 where "DHCPDISCOVER = 1"
definition DHCPOFFER :: u8 where "DHCPOFFER = 2"
definition DHCPREQUEST :: u8 where "DHCPREQUEST = 3"
definition DHCPACK :: u8 where "DHCPACK = 5"

definition DHCP_OPT_PAD :: u8 where "DHCP_OPT_PAD = 0"
definition DHCP_OPT_SUBNET_MASK :: u8 where "DHCP_OPT_SUBNET_MASK = 1"
definition DHCP_OPT_ROUTER :: u8 where "DHCP_OPT_ROUTER = 3"
definition DHCP_OPT_DNS :: u8 where "DHCP_OPT_DNS = 6"
definition DHCP_OPT_IP_LEASE_TIME :: u8 where "DHCP_OPT_IP_LEASE_TIME = 51"
definition DHCP_OPT_MSG_TYPE :: u8 where "DHCP_OPT_MSG_TYPE = 53"
definition DHCP_OPT_SERVER_ID :: u8 where "DHCP_OPT_SERVER_ID = 54"
definition DHCP_OPT_END :: u8 where "DHCP_OPT_END = 255"

definition PORT_DHCP_CLIENT :: u16 where "PORT_DHCP_CLIENT = 68"
definition DEFAULT_LEASE_TIME_S :: nat where "DEFAULT_LEASE_TIME_S = 24 * 60 * 60"
definition MAC_LEN :: nat where "MAC_LEN = 6"
definition DHCPS_BASE_IP :: nat where "DHCPS_BASE_IP = 16"
definition DHCPS_MAX_IP :: nat where "DHCPS_MAX_IP = 8"

text \<open>
  \<open>dhcp_server_lease_t\<close> and \<open>dhcp_server_t\<close> (without the pcb handle). \<open>mac\<close> holds the
  six bytes of the array, \<open>lease\<close> the \<open>DHCPS_MAX_IP\<close> entries.
\<close>

record dhcp_server_lease_t =
  mac :: "u8 list"
  expiry :: u16

record dhcp_server_t =
  ip :: u32
  nm :: u32
  lease :: "dhcp_server_lease_t list"

text \<open>
  \<open>dhcp_msg_t\<close> is the 548 bytes of the struct as they lie in memory, which is also how
  the datagram is copied in and the reply sent out. The fields the server touches, by
  offset: \<open>op\<close> 0, \<open>flags\<close> 10, \<open>ciaddr\<close> 12, \<open>yiaddr\<close> 16, \<open>siaddr\<close> 20, \<open>chaddr\<close> 28,
  \<open>options\<close> 236.
\<close>

definition sizeof_dhcp_msg_t :: nat where "sizeof_dhcp_msg_t = 548"
definition DHCP_FIXED_PART_SIZE :: nat where "DHCP_FIXED_PART_SIZE = 236"
definition DHCP_MIN_REQUIRED_SIZE :: nat where "DHCP_MIN_REQUIRED_SIZE = DHCP_FIXED_PART_SIZE + 4"

definition chaddr :: "u8 list \<Rightarrow> u8 list" where
  "chaddr dhcp_msg = take 16 (drop 28 dhcp_msg)"

definition ciaddr :: "u8 list \<Rightarrow> u8 list" where
  "ciaddr dhcp_msg = take 4 (drop 12 dhcp_msg)"

definition yiaddr :: "u8 list \<Rightarrow> u8 list" where
  "yiaddr dhcp_msg = take 4 (drop 16 dhcp_msg)"

definition flags :: "u8 list \<Rightarrow> u16" where
  "flags dhcp_msg = u16_load (dhcp_msg ! 10) (dhcp_msg ! 11)"

text \<open>\<open>memcmp(a, b, n) == 0\<close> on arrays of at least \<open>n\<close> bytes.\<close>

definition memcmp_eq :: "u8 list \<Rightarrow> u8 list \<Rightarrow> nat \<Rightarrow> bool" where
  "memcmp_eq a b n = (take n a = take n b)"

text \<open>
  \<open>opt_find\<close>, by indices into the 308 bytes \<open>opt\<close> that follow the magic cookie:
  \<open>Inr (Some i)\<close> is a pointer to \<open>opt[i]\<close>, \<open>Inr None\<close> is NULL. At \<open>i = 307\<close> the
  source reads \<open>opt[i + 1]\<close>, one byte past the end of \<open>dhcp_msg\<close>.
\<close>

function opt_find :: "u8 list \<Rightarrow> u8 \<Rightarrow> nat \<Rightarrow> c_fault + nat option" where
  "opt_find opt cmd i =
     (if i < 312 - 4 \<and> opt ! i \<noteq> DHCP_OPT_END then
        (if opt ! i = cmd then Inr (Some i)
         else if opt ! i = DHCP_OPT_PAD then opt_find opt cmd (i + 1)
         else if i + 1 < 312 - 4 then opt_find opt cmd (i + 2 + unat (opt ! (i + 1)))
         else Inl Out_of_bounds_read)
      else Inr None)"
  by pat_completeness auto
termination
  by (relation "measure (\<lambda>(opt, cmd, i). 308 - i)") auto

text \<open>
  The option writers take the buffer with the offset \<open>*opt\<close> points to and return both
  updated. \<open>data\<close> is the memory the source pointer refers to.
\<close>

definition opt_write_n :: "u8 list \<times> nat \<Rightarrow> u8 \<Rightarrow> nat \<Rightarrow> u8 list \<Rightarrow> u8 list \<times> nat" where
  "opt_write_n bo cmd n data =
     (case bo of (buf, opt) \<Rightarrow> (write_bytes buf opt ([cmd, of_nat n] @ take n data), opt + 2 + n))"

definition opt_write_u8 :: "u8 list \<times> nat \<Rightarrow> u8 \<Rightarrow> u8 \<Rightarrow> u8 list \<times> nat" where
  "opt_write_u8 bo cmd val = (case bo of (buf, opt) \<Rightarrow> (write_bytes buf opt [cmd, 1, val], opt + 3))"

definition opt_write_u32 :: "u8 list \<times> nat \<Rightarrow> u8 \<Rightarrow> u32 \<Rightarrow> u8 list \<times> nat" where
  "opt_write_u32 bo cmd val =
     (case bo of (buf, opt) \<Rightarrow>
        (write_bytes buf opt
           [cmd, 4, ucast (drop_bit 24 val), ucast (drop_bit 16 val), ucast (drop_bit 8 val),
            ucast val],
         opt + 6))"

text \<open>
  \<open>dhcp_socket_sendto\<close> when \<open>pbuf_alloc\<close> finds memory: the payload is cut at 0xffff
  bytes and the destination is rebuilt with \<open>IP4_ADDR\<close> from the four bytes of
  \<open>ip_dest_val\<close>, most significant first. The result is the datagram handed to
  \<open>udp_sendto_if\<close>.
\<close>

definition dhcp_socket_sendto :: "u8 list \<Rightarrow> nat \<Rightarrow> u32 \<Rightarrow> u16 \<Rightarrow> udp_sendto" where
  "dhcp_socket_sendto buf len ip_dest_val port =
     \<lparr>payload = take (if len > 0xffff then 0xffff else len) buf,
      dest_addr = IP4_ADDR (ucast (drop_bit 24 ip_dest_val AND 0xff))
                    (ucast (drop_bit 16 ip_dest_val AND 0xff))
                    (ucast (drop_bit 8 ip_dest_val AND 0xff))
                    (ucast (drop_bit 0 ip_dest_val AND 0xff)),
      dest_port = port\<rparr>"

text \<open>
  The validation at the head of \<open>dhcp_server_process\<close>. \<open>stack\<close> is what the 548 bytes
  of \<open>dhcp_msg\<close> held before the copy, \<open>pkt\<close> the received datagram. \<open>Inr None\<close> is the
  jump to \<open>ignore_request\<close>; \<open>Inr (Some (dhcp_msg, t))\<close> is the copied message and its
  \<open>extracted_msg_type\<close>. Reading \<open>msg_type_opt[1]\<close> or \<open>msg_type_opt[2]\<close> past the end
  of \<open>dhcp_msg\<close> is a fault.
\<close>

definition dhcp_parse :: "u8 list \<Rightarrow> u8 list \<Rightarrow> c_fault + (u8 list \<times> u8) option" where
  "dhcp_parse stack pkt =
     (if length pkt < DHCP_MIN_REQUIRED_SIZE then Inr None
      else
        (let (dhcp_msg, len_copied) = pbuf_copy_partial pkt sizeof_dhcp_msg_t stack in
         if len_copied < DHCP_MIN_REQUIRED_SIZE then Inr None
         else if dhcp_msg ! 236 \<noteq> 0x63 \<or> dhcp_msg ! 237 \<noteq> 0x82 \<or>
                 dhcp_msg ! 238 \<noteq> 0x53 \<or> dhcp_msg ! 239 \<noteq> 0x63 then Inr None
         else
           (let opt = drop 240 dhcp_msg in
            case opt_find opt DHCP_OPT_MSG_TYPE 0 of
              Inl f \<Rightarrow> Inl f
            | Inr None \<Rightarrow> Inr None
            | Inr (Some i) \<Rightarrow>
                if \<not> i + 1 < 312 - 4 then Inl Out_of_bounds_read
                else if opt ! (i + 1) \<noteq> 1 then Inr None
                else if \<not> i + 2 < 312 - 4 then Inl Out_of_bounds_read
                else Inr (Some (dhcp_msg, opt ! (i + 2))))))"

text \<open>The inner loop of the DISCOVER scan over the six bytes of a MAC.\<close>

definition mac_is_null :: "u8 list \<Rightarrow> bool" where
  "mac_is_null m = list_all (\<lambda>b. b = 0) (take MAC_LEN m)"

text \<open>
  The scan of the DISCOVER case, from slot \<open>i\<close> on. It returns the lease table (expired
  slots are cleared on the way), \<open>yi_idx\<close> (\<open>- 1\<close> when no MAC matched) and
  \<open>best_free_idx\<close>.
\<close>

function discover_scan ::
    "dhcp_server_lease_t list \<Rightarrow> u8 list \<Rightarrow> u32 \<Rightarrow> nat \<Rightarrow> int \<Rightarrow>
     dhcp_server_lease_t list \<times> int \<times> int" where
  "discover_scan ls ch current_time_marker i best_free_idx =
     (if i < DHCPS_MAX_IP then
        (if memcmp_eq (mac (ls ! i)) ch MAC_LEN then (ls, int i, best_free_idx)
         else if mac_is_null (mac (ls ! i)) then
           discover_scan ls ch current_time_marker (i + 1)
             (if best_free_idx = - 1 then int i else best_free_idx)
         else if sint (ucast (current_time_marker - ucast (expiry (ls ! i))) :: u16) > 0 \<and>
                 expiry (ls ! i) \<noteq> 0 then
           discover_scan (ls[i := (ls ! i)\<lparr>mac := replicate MAC_LEN 0, expiry := 0\<rparr>])
             ch current_time_marker (i + 1)
             (if best_free_idx = - 1 then int i else best_free_idx)
         else discover_scan ls ch current_time_marker (i + 1) best_free_idx)
      else (ls, - 1, best_free_idx))"
  by pat_completeness auto
termination
  by (relation "measure (\<lambda>(ls, ch, t, i, b). DHCPS_MAX_IP - i)") auto

text \<open>The first loop of the REQUEST case: the slot whose MAC matches, or \<open>DHCPS_MAX_IP\<close>.\<close>

function request_scan_mac :: "dhcp_server_lease_t list \<Rightarrow> u8 list \<Rightarrow> nat \<Rightarrow> nat" where
  "request_scan_mac ls ch i =
     (if i < DHCPS_MAX_IP then
        (if memcmp_eq (mac (ls ! i)) ch MAC_LEN then i else request_scan_mac ls ch (i + 1))
      else DHCPS_MAX_IP)"
  by pat_completeness auto
termination
  by (relation "measure (\<lambda>(ls, ch, i). DHCPS_MAX_IP - i)") auto

text \<open>
  The second loop of the REQUEST case. \<open>ticks k\<close> is what the \<open>k\<close>-th call of
  \<open>cyw43_hal_ticks_ms()\<close> in this callback returns (counting from 0); the loop calls it
  only for a slot whose MAC is not all-zero. It returns \<open>yi\<close>, the lease table (with the
  client's MAC bound to the slot found) and the number of clock reads so far. The source
  shifts \<open>expiry\<close> as an \<open>int\<close>; \<open>exp32\<close> is the 32-bit pattern that results, also for
  an expiry of 0x8000 and more, where the shift passes \<open>INT_MAX\<close>.
\<close>

function request_scan_free ::
    "(nat \<Rightarrow> u32) \<Rightarrow> dhcp_server_lease_t list \<Rightarrow> u8 list \<Rightarrow> nat \<Rightarrow> nat \<Rightarrow>
     nat \<times> dhcp_server_lease_t list \<times> nat" where
  "request_scan_free ticks ls ch i k =
     (if i < DHCPS_MAX_IP then
        (let exp32 = push_bit 16 (ucast (expiry (ls ! i)) :: u32) OR 0xFFFF in
         if memcmp_eq (mac (ls ! i)) (replicate 6 0) MAC_LEN then
           (i, ls[i := (ls ! i)\<lparr>mac := take MAC_LEN ch\<rparr>], k)
         else if sint (exp32 - ticks k) < 0 then
           (i, ls[i := (ls ! i)\<lparr>mac := take MAC_LEN ch\<rparr>], k + 1)
         else request_scan_free ticks ls ch (i + 1) (k + 1))
      else (DHCPS_MAX_IP, ls, k))"
  by pat_completeness auto
termination
  by (relation "measure (\<lambda>(t, ls, ch, i, k). DHCPS_MAX_IP - i)") auto

text \<open>
  The part of \<open>dhcp_server_process\<close> after the \<open>switch\<close>: the common options, END, the
  choice of the destination and the call of \<open>dhcp_socket_sendto\<close>. \<open>bo\<close> is the message
  with the offset of \<open>opt_ptr\<close> in it.
\<close>

definition dhcp_send_reply :: "dhcp_server_t \<Rightarrow> u8 list \<times> nat \<Rightarrow> u8 \<Rightarrow> udp_sendto" where
  "dhcp_send_reply d bo extracted_msg_type =
     (let bo1 = opt_write_u32 bo DHCP_OPT_SERVER_ID (ip d);
          bo2 = opt_write_n bo1 DHCP_OPT_SUBNET_MASK 4 (u32_bytes (nm d));
          bo3 = opt_write_n bo2 DHCP_OPT_ROUTER 4 (u32_bytes (ip d));
          bo4 = opt_write_n bo3 DHCP_OPT_DNS 4 (u32_bytes (ip d));
          bo5 = opt_write_u32 bo4 DHCP_OPT_IP_LEASE_TIME (lwip_htonl (of_nat DEFAULT_LEASE_TIME_S));
          dhcp_msg = write_bytes (fst bo5) (snd bo5) [DHCP_OPT_END];
          opt_ptr = snd bo5 + 1;
          dest_ip_val =
            (if extracted_msg_type = DHCPACK then
               (let broadcast_flag = ((flags dhcp_msg AND PP_HTONS 0x8000) \<noteq> 0);
                    ciaddr_is_zero = ((ciaddr dhcp_msg ! 0 OR ciaddr dhcp_msg ! 1 OR
                                       ciaddr dhcp_msg ! 2 OR ciaddr dhcp_msg ! 3) = 0)
                in if \<not> broadcast_flag \<and> ciaddr_is_zero then
                     push_bit 24 (ucast (yiaddr dhcp_msg ! 0)) OR
                     push_bit 16 (ucast (yiaddr dhcp_msg ! 1)) OR
                     push_bit 8 (ucast (yiaddr dhcp_msg ! 2)) OR
                     ucast (yiaddr dhcp_msg ! 3)
                   else 0xFFFFFFFF)
             else 0xFFFFFFFF)
      in dhcp_socket_sendto dhcp_msg opt_ptr dest_ip_val PORT_DHCP_CLIENT)"

text \<open>
  \<open>dhcp_server_process\<close>. \<open>ticks k\<close> is what the \<open>k\<close>-th call of
  \<open>cyw43_hal_ticks_ms()\<close> in this callback returns. The result is the server state and
  the datagram handed to \<open>udp_sendto\<close>, if any.
\<close>

definition dhcp_server_process ::
    "dhcp_server_t \<Rightarrow> (nat \<Rightarrow> u32) \<Rightarrow> u8 list \<Rightarrow> u8 list \<Rightarrow>
     c_fault + (dhcp_server_t \<times> udp_sendto option)" where
  "dhcp_server_process d ticks stack pkt =
     (case dhcp_parse stack pkt of
        Inl f \<Rightarrow> Inl f
      | Inr None \<Rightarrow> Inr (d, None)
      | Inr (Some (m0, extracted_msg_type)) \<Rightarrow>
          (let m1 = write_bytes (m0[0 := 2]) 20 (u32_bytes (ip d)) in
           if extracted_msg_type = DHCPDISCOVER then
             (let current_time_marker = drop_bit 16 (ticks 0);
                  (ls, yi0, best_free_idx) =
                     discover_scan (lease d) (chaddr m1) current_time_marker 0 (- 1);
                  yi_idx = (if yi0 = - 1 \<and> best_free_idx \<noteq> - 1 then best_free_idx else yi0);
                  d' = d\<lparr>lease := ls\<rparr>
              in if yi_idx = - 1 then Inr (d', None)
                 else
                   (let m2 = (write_bytes m1 16 (u32_bytes (ip d')))
                               [19 := of_int (int DHCPS_BASE_IP + yi_idx)];
                        bo = opt_write_u8 (m2, 240) DHCP_OPT_MSG_TYPE DHCPOFFER;
                        bo' = opt_write_u8 (fst bo, 240) DHCP_OPT_MSG_TYPE DHCPOFFER
                    in Inr (d', Some (dhcp_send_reply d' bo' extracted_msg_type))))
           else if extracted_msg_type = DHCPREQUEST then
             (let yi0 = request_scan_mac (lease d) (chaddr m1) 0;
                  (yi, ls, k) =
                     (if yi0 = DHCPS_MAX_IP then request_scan_free ticks (lease d) (chaddr m1) 0 0
                      else (yi0, lease d, 0))
              in if yi = DHCPS_MAX_IP then Inr (d, None)
                 else
                   (let d' = d\<lparr>lease := ls[yi := (ls ! yi)\<lparr>expiry :=
                                ucast (drop_bit 16 (ticks k + of_nat (DEFAULT_LEASE_TIME_S * 1000)))\<rparr>]\<rparr>;
                        m2 = (write_bytes m1 16 (u32_bytes (ip d')))
                               [19 := of_nat (DHCPS_BASE_IP + yi)];
                        bo = opt_write_u8 (m2, 240) DHCP_OPT_MSG_TYPE DHCPACK
                    in Inr (d', Some (dhcp_send_reply d' bo extracted_msg_type))))
           else Inr (d, None)))"

text \<open>
  \<open>dhcp_server_init\<close> when the socket is created and bound: the addresses are stored
  and \<open>memset\<close> clears the lease table.
\<close>

definition dhcp_server_init :: "u32 \<Rightarrow> u32 \<Rightarrow> dhcp_server_t" where
  "dhcp_server_init ip_addr nm_addr =
     \<lparr>ip = ip_addr, nm = nm_addr,
      lease = replicate DHCPS_MAX_IP \<lparr>mac = replicate MAC_LEN 0, expiry = 0\<rparr>\<rparr>"

text \<open>
  The server over a sequence of received datagrams, each with the clock of its callback
  and the stale contents of its \<open>dhcp_msg\<close>; a fault ends the run.
\<close>

fun dhcp_server_run ::
    "dhcp_server_t \<Rightarrow> ((nat \<Rightarrow> u32) \<times> u8 list \<times> u8 list) list \<Rightarrow> c_fault + dhcp_server_t" where
  "dhcp_server_run d [] = Inr d"
| "dhcp_server_run d ((ticks, stack, pkt) # rest) =
     (case dhcp_server_process d ticks stack pkt of
        Inl f \<Rightarrow> Inl f
      | Inr (d', sent) \<Rightarrow> dhcp_server_run d' rest)"

text \<open>
  Two abbreviations to state what a reply holds. \<open>dhcp_reply_msg\<close> is \<open>dhcp_msg\<close> after
  the stores into \<open>op\<close>, \<open>siaddr\<close>, \<open>yiaddr\<close> (\<open>x\<close> its last byte) and the
  message type option \<open>t\<close>; \<open>common_options\<close> are the bytes of the options the code
  writes after the message type, END included, with the server identifier and the lease
  time as \<open>opt_write_u32\<close> lays them out.
\<close>

definition dhcp_reply_msg :: "dhcp_server_t \<Rightarrow> u8 list \<Rightarrow> u8 \<Rightarrow> u8 \<Rightarrow> u8 list" where
  "dhcp_reply_msg d m x t =
     write_bytes
       ((write_bytes (write_bytes (m[0 := 2]) 20 (u32_bytes (ip d))) 16 (u32_bytes (ip d)))
          [19 := x])
       240 [DHCP_OPT_MSG_TYPE, 1, t]"

definition common_options :: "dhcp_server_t \<Rightarrow> u8 list" where
  "common_options d =
     [DHCP_OPT_SERVER_ID, 4, ucast (drop_bit 24 (ip d)), ucast (drop_bit 16 (ip d)),
      ucast (drop_bit 8 (ip d)), ucast (ip d)] @
     [DHCP_OPT_SUBNET_MASK, 4] @ u32_bytes (nm d) @
     [DHCP_OPT_ROUTER, 4] @ u32_bytes (ip d) @
     [DHCP_OPT_DNS, 4] @ u32_bytes (ip d) @
     [DHCP_OPT_IP_LEASE_TIME, 4,
      ucast (drop_bit 24 (lwip_htonl (of_nat DEFAULT_LEASE_TIME_S))),
      ucast (drop_bit 16 (lwip_htonl (of_nat DEFAULT_LEASE_TIME_S))),
      ucast (drop_bit 8 (lwip_htonl (of_nat DEFAULT_LEASE_TIME_S))),
      ucast (lwip_htonl (of_nat DEFAULT_LEASE_TIME_S)),
      DHCP_OPT_END]"



text \<open>
  A client message as short as the server accepts, to run the server on: BOOTREQUEST
  on Ethernet, \<open>xid\<close>, \<open>secs\<close>, \<open>flags\<close> and the four addresses zero, the hardware
  address \<open>hw\<close>, the magic cookie, the message type option \<open>t\<close> and END.
\<close>

definition dhcp_client_msg :: "u8 list \<Rightarrow> u8 \<Rightarrow> u8 list" where
  "dhcp_client_msg hw t =
     [1, 1, 6, 0] @ replicate 24 0 @ hw @ replicate (208 - length hw) 0 @
     [0x63, 0x82, 0x53, 0x63, DHCP_OPT_MSG_TYPE, 1, t, DHCP_OPT_END]"

text \<open>
  The server as \<open>wifi_ap_init\<close> (wifi_ap.c) and \<open>network_manager_init\<close> start it:
  gateway 192.168.4.1, mask 255.255.255.0.
\<close>

definition wifi_ap_dhcp :: dhcp_server_t where
  "wifi_ap_dhcp = dhcp_server_init (IP4_ADDR 192 168 4 1) (IP4_ADDR 255 255 255 0)"
section \<open>Console handlers: the shutdown keys\<close>

text \<open>
  Claim C9 does not hold as stated for \<open>key_pressed_func\<close>: with the flag clear, the
  characters \<open>q\<close> and \<open>Q\<close> leave it clear.
\<close>

theorem key_pressed_func_q_counterexample:
  "key_pressed_func (Some \<lparr>complete = False\<rparr>) (of_char (CHR ''q'')) = Some \<lparr>complete = False\<rparr>
   \<and> key_pressed_func (Some \<lparr>complete = False\<rparr>) (of_char (CHR ''Q'')) = Some \<lparr>complete = False\<rparr>"
  by (simp add: key_pressed_func_def)

text \<open>
  Claim C9, amended: in the alarm simulator the handler \<open>key_pressed_func\<close> sets the
  shutdown flag \<open>complete\<close> exactly when it reads \<open>d\<close> or \<open>D\<close> (or the flag was set
  already), whatever else it reads; in the main loop of Atividade\_02 the shutdown flag is
  set exactly by \<open>q\<close> or \<open>Q\<close>.
\<close>

theorem console_shutdown_keys:
  "key_pressed_func (Some state) key =
     Some (state\<lparr>complete := complete state \<or> key = of_char (CHR ''d'') \<or> key = of_char (CHR ''D'')\<rparr>)
   \<and> wifi_ap_must_shutdown (main_poll_console c net) =
     (shutdown net \<or> c = of_char (CHR ''q'') \<or> c = of_char (CHR ''Q''))"
  by (cases "complete state")
     (auto simp: key_pressed_func_def main_poll_console_def wifi_ap_request_shutdown_def
        wifi_ap_must_shutdown_def)

theorem console_shutdown_keys_witness:
  "key_pressed_func (Some \<lparr>complete = False\<rparr>) (of_char (CHR ''D'')) = Some \<lparr>complete = True\<rparr>
   \<and> key_pressed_func (Some \<lparr>complete = False\<rparr>) (of_char (CHR ''x'')) = Some \<lparr>complete = False\<rparr>
   \<and> wifi_ap_must_shutdown (main_poll_console (of_char (CHR ''q'')) \<lparr>shutdown = False\<rparr>)
   \<and> wifi_ap_must_shutdown (main_poll_console (of_char (CHR ''d'')) \<lparr>shutdown = False\<rparr>) = False"
  using console_shutdown_keys [of "\<lparr>complete = False\<rparr>" "of_char (CHR ''D'')"
          "of_char (CHR ''q'')" "\<lparr>shutdown = False\<rparr>"]
        console_shutdown_keys [of "\<lparr>complete = False\<rparr>" "of_char (CHR ''x'')"
          "of_char (CHR ''d'')" "\<lparr>shutdown = False\<rparr>"]
  by simp

section \<open>HTTP server and page renderer\<close>

subsection \<open>Evaluated constants of the responses\<close>

lemma sscanf_alarm_on: "sscanf_ALARM_PARAM_STR ''alarm=on'' = Some ''on''"
  by (simp add: sscanf_ALARM_PARAM_STR_def isspace_def)

lemma sscanf_alarm_off: "sscanf_ALARM_PARAM_STR ''alarm=off'' = Some ''off''"
  by (simp add: sscanf_ALARM_PARAM_STR_def isspace_def)

lemma length_ALARM_PAGE_BODY_0: "length ALARM_PAGE_BODY_0 = 914"
  by (simp add: ALARM_PAGE_BODY_0_def)

lemma length_body_on: "length (ALARM_PAGE_BODY ''on'' ''LIGADO'' ''off'' ''off'' ''Desligar'') = 1025"
  by (simp add: ALARM_PAGE_BODY_def length_ALARM_PAGE_BODY_0 ALARM_PAGE_BODY_1_def ALARM_PAGE_BODY_2_def 
     ALARM_PAGE_BODY_3_def ALARM_PAGE_BODY_4_def ALARM_PAGE_BODY_5_def)

lemma length_body_off: "length (ALARM_PAGE_BODY ''off'' ''DESLIGADO'' ''on'' ''on'' ''Ligar'') = 1024"
  by (simp add: ALARM_PAGE_BODY_def length_ALARM_PAGE_BODY_0 ALARM_PAGE_BODY_1_def ALARM_PAGE_BODY_2_def 
     ALARM_PAGE_BODY_3_def ALARM_PAGE_BODY_4_def ALARM_PAGE_BODY_5_def)

lemma headers_1025: "HTTP_RESPONSE_HEADERS 200 1025 =
   ''HTTP/1.1 200 OK'' @ [CHR 0x0A] @ ''Content-Length: 1025'' @ [CHR 0x0A] @
   ''Content-Type: text/html; charset=utf-8'' @ [CHR 0x0A] @ ''Connection: close'' @ [CHR 0x0A, CHR 0x0A]"
  by code_simp

lemma length_headers_1025: "length (HTTP_RESPONSE_HEADERS 200 1025) = 95"
  by (simp add: headers_1025)

lemma redirect_gw: "HTTP_RESPONSE_REDIRECT_TO_ROOT (ipaddr_ntoa [192, 168, 4, 1]) =
   ''HTTP/1.1 302 Redirect'' @ [CHR 0x0A] @ ''Location: http://192.168.4.1/'' @ [CHR 0x0A, CHR 0x0A]"
  by code_simp

lemma set_active_result: "s_alarm_active (fst (alarm_control_set_active now b s)) = b"
  by (auto simp: alarm_control_set_active_def)

lemma process_keeps_active: "s_alarm_active (fst (alarm_control_process now s)) = s_alarm_active s"
  by (auto simp: alarm_control_process_def Let_def)

lemma processes_keep_active:
  "s_alarm_active (foldl (\<lambda>s t. fst (alarm_control_process t s)) s ts) = s_alarm_active s"
  by (induction ts arbitrary: s) (simp_all add: process_keeps_active)

lemma page_when_active:
  "s_alarm_active s \<Longrightarrow> http_generate_page_content now (Some ''alarm=on'') s =
     Inr (s, [], ALARM_PAGE_BODY ''on'' ''LIGADO'' ''off'' ''off'' ''Desligar'')"
  by (simp add: http_generate_page_content_def sscanf_alarm_on alarm_control_is_active_def)

lemma page_when_inactive:
  "\<not> s_alarm_active s \<Longrightarrow> http_generate_page_content now (Some ''alarm=on'') s =
     Inr (s\<lparr>s_alarm_active := True, s_last_toggle_time_us := now, s_alarm_output_toggle_state := False\<rparr>,
       [Oled_display_update_status True, Gpio_put LED_GREEN_GPIO False],
       ALARM_PAGE_BODY ''on'' ''LIGADO'' ''off'' ''off'' ''Desligar'')"
  by (simp add: http_generate_page_content_def sscanf_alarm_on alarm_control_is_active_def alarm_control_set_active_def)

subsection \<open>The request path of a GET\<close>

lemma copy_len_take: "take (if length data > 127 then 127 else length data) data = take 127 data"
  by simp

lemma recv_send_ok:
  "header_len c < 127 \<Longrightarrow>
   tcp_server_recv_send ERR_OK wb cr n c =
     (if result_len c > 0 then
        (if wb \<noteq> ERR_OK then
           (None, Tcp_write (take (nat (header_len c)) (headers c)) #
                    fst (tcp_close_client_connection cr wb),
            snd (tcp_close_client_connection cr wb))
         else (Some (c\<lparr>sent_len := 0\<rparr>),
               [Tcp_write (take (nat (header_len c)) (headers c)),
                Tcp_write (take (nat (result_len c)) (result c)), Tcp_recved n], ERR_OK))
      else (Some (c\<lparr>sent_len := 0\<rparr>),
            [Tcp_write (take (nat (header_len c)) (headers c)), Tcp_recved n], ERR_OK))"
  by (simp add: tcp_server_recv_send_def Let_def split: prod.splits)

lemma int_add_in_range: "- (2 ^ 31) \<le> x + y \<Longrightarrow> x + y < 2 ^ 31 \<Longrightarrow> int_add x y = x + y"
  unfolding int_add_def by (rule signed_take_bit_int_eq_self)

text \<open>
  Every received request that starts with \<open>GET\<close> and whose path is not \<open>/\<close>, on a
  connection whose gateway is 192.168.4.1 and whose header write lwIP accepts: the
  server writes \<open>HTTP/1.1 302 Redirect\nLocation: http://192.168.4.1/\n\n\<close> (LF line
  ends, 53 bytes, no body), and with these lengths \<open>tcp_server_sent\<close> closes the
  connection exactly when the acknowledged bytes reach 53, as long as \<open>sent_len\<close> stays
  within an \<open>int\<close>.
\<close>

lemma redirect_not_root:
  assumes "data \<noteq> []"
    and "take 3 (cstr (take 127 data)) = ''GET''"
    and "request_path (request_target (cstr (take 127 data))) \<noteq> ''/''"
    and "gw con_state = [192, 168, 4, 1]"
  shows "tcp_server_recv ERR_OK write_body_res close_res now con_state a (Some data) =
           Inr (Some (con_state\<lparr>result_len := 0,
                  headers := ''HTTP/1.1 302 Redirect'' @ [CHR 0x0A] @
                             ''Location: http://192.168.4.1/'' @ [CHR 0x0A, CHR 0x0A],
                  header_len := 53, sent_len := 0\<rparr>),
                a,
                [Tcp_write (''HTTP/1.1 302 Redirect'' @ [CHR 0x0A] @
                            ''Location: http://192.168.4.1/'' @ [CHR 0x0A, CHR 0x0A]),
                 Tcp_recved (length data)],
                ERR_OK)
         \<and> (\<forall>acked len.
               0 \<le> acked \<and> acked + uint len < 2 ^ 31 \<longrightarrow>
               tcp_server_sent ERR_OK
                 (con_state\<lparr>result_len := 0,
                    headers := ''HTTP/1.1 302 Redirect'' @ [CHR 0x0A] @
                               ''Location: http://192.168.4.1/'' @ [CHR 0x0A, CHR 0x0A],
                    header_len := 53, sent_len := acked\<rparr>) len =
               (if acked + uint len \<ge> 53 then (None, [Tcp_close], ERR_OK)
                else (Some (con_state\<lparr>result_len := 0,
                        headers := ''HTTP/1.1 302 Redirect'' @ [CHR 0x0A] @
                                   ''Location: http://192.168.4.1/'' @ [CHR 0x0A, CHR 0x0A],
                        header_len := 53, sent_len := acked + uint len\<rparr>), [], ERR_OK)))"
proof -
  let ?hs = "''HTTP/1.1 302 Redirect'' @ [CHR 0x0A] @ ''Location: http://192.168.4.1/'' @
             [CHR 0x0A, CHR 0x0A]"
  let ?c = "con_state\<lparr>result_len := 0, headers := take 127 ?hs, header_len := int (length ?hs)\<rparr>"
  have send: "tcp_server_recv_send ERR_OK write_body_res close_res (length data) ?c =
      (Some (?c\<lparr>sent_len := 0\<rparr>), [Tcp_write ?hs, Tcp_recved (length data)], ERR_OK)"
    by (subst recv_send_ok) simp_all
  have recv: "tcp_server_recv ERR_OK write_body_res close_res now con_state a (Some data) =
           Inr (Some (con_state\<lparr>result_len := 0, headers := ?hs, header_len := 53, sent_len := 0\<rparr>),
                a, [Tcp_write ?hs, Tcp_recved (length data)], ERR_OK)"
    using assms send
    by (simp add: tcp_server_recv_def copy_len_take redirect_gw Let_def del: append.simps)
  have total: "int_add 53 0 = 53" by (rule int_add_in_range [of 53 0, simplified])
  have sent: "tcp_server_sent ERR_OK
                 (con_state\<lparr>result_len := 0, headers := ?hs, header_len := 53, sent_len := acked\<rparr>) len =
               (if acked + uint len \<ge> 53 then (None, [Tcp_close], ERR_OK)
                else (Some (con_state\<lparr>result_len := 0, headers := ?hs, header_len := 53,
                        sent_len := acked + uint len\<rparr>), [], ERR_OK))"
    if "0 \<le> acked \<and> acked + uint len < 2 ^ 31" for acked and len :: u16
  proof -
    have "0 \<le> uint len" by simp
    with that have "- (2 ^ 31) \<le> acked + uint len" by linarith
    with that have "int_add acked (uint len) = acked + uint len"
      by (intro int_add_in_range) simp_all
    then show ?thesis
      by (simp add: tcp_server_sent_def tcp_close_client_connection_def Let_def total)
  qed
  from recv sent show ?thesis by (intro conjI allI impI)
qed

text \<open>
  Past \<open>INT_MAX\<close> the sum wraps: with \<open>sent_len\<close> at 2147483647 one more acknowledged
  byte makes it negative and the connection is not closed.
\<close>

lemma tcp_server_sent_wraps:
  "tcp_server_sent ERR_OK
     \<lparr>sent_len = 2147483647, headers = [], result = [], header_len = 53, result_len = 0,
        gw = [192, 168, 4, 1]\<rparr> 1 =
   (Some \<lparr>sent_len = - 2147483648, headers = [], result = [], header_len = 53, result_len = 0,
           gw = [192, 168, 4, 1]\<rparr>, [], ERR_OK)"
  by (simp add: tcp_server_sent_def int_add_def signed_take_bit_eq_take_bit_minus
        take_bit_eq_mod bit_iff_odd)

text \<open>
  Claim C4, at the request of scenario S5, \<open>GET /favicon.ico HTTP/1.1\<close> and an empty
  line, on a connection of the access point: the server writes the 53 bytes
  \<open>HTTP/1.1 302 Redirect\nLocation: http://192.168.4.1/\n\n\<close>, whose lines end in LF,
  not the bytes of the claim, whose lines end in CRLF. The connection stays open while
  40 of the 53 bytes are acknowledged and is closed when the other 13 are.
\<close>

theorem http_redirect_favicon:
  "tcp_server_recv ERR_OK ERR_OK ERR_OK 0
       \<lparr>sent_len = 0, headers = [], result = [], header_len = 0, result_len = 0,
          gw = [192, 168, 4, 1]\<rparr>
       \<lparr>s_alarm_active = False, s_alarm_output_toggle_state = False, s_last_toggle_time_us = 0\<rparr>
       (Some (''GET /favicon.ico HTTP/1.1'' @ [CHR 0x0D, CHR 0x0A, CHR 0x0D, CHR 0x0A]))
     = Inr (Some \<lparr>sent_len = 0,
                 headers = ''HTTP/1.1 302 Redirect'' @ [CHR 0x0A] @
                           ''Location: http://192.168.4.1/'' @ [CHR 0x0A, CHR 0x0A],
                 result = [], header_len = 53, result_len = 0, gw = [192, 168, 4, 1]\<rparr>,
            \<lparr>s_alarm_active = False, s_alarm_output_toggle_state = False,
               s_last_toggle_time_us = 0\<rparr>,
            [Tcp_write (''HTTP/1.1 302 Redirect'' @ [CHR 0x0A] @
                        ''Location: http://192.168.4.1/'' @ [CHR 0x0A, CHR 0x0A]),
             Tcp_recved 29],
            ERR_OK)
   \<and> ''HTTP/1.1 302 Redirect'' @ [CHR 0x0A] @ ''Location: http://192.168.4.1/'' @
       [CHR 0x0A, CHR 0x0A]
     \<noteq> ''HTTP/1.1 302 Redirect'' @ [CHR 0x0D, CHR 0x0A] @ ''Location: http://192.168.4.1/'' @
       [CHR 0x0D, CHR 0x0A, CHR 0x0D, CHR 0x0A]
   \<and> tcp_server_sent ERR_OK
       \<lparr>sent_len = 0, headers = ''HTTP/1.1 302 Redirect'' @ [CHR 0x0A] @
                           ''Location: http://192.168.4.1/'' @ [CHR 0x0A, CHR 0x0A],
          result = [], header_len = 53, result_len = 0, gw = [192, 168, 4, 1]\<rparr> 40
     = (Some \<lparr>sent_len = 40, headers = ''HTTP/1.1 302 Redirect'' @ [CHR 0x0A] @
                           ''Location: http://192.168.4.1/'' @ [CHR 0x0A, CHR 0x0A],
          result = [], header_len = 53, result_len = 0, gw = [192, 168, 4, 1]\<rparr>, [], ERR_OK)
   \<and> tcp_server_sent ERR_OK
       \<lparr>sent_len = 40, headers = ''HTTP/1.1 302 Redirect'' @ [CHR 0x0A] @
                           ''Location: http://192.168.4.1/'' @ [CHR 0x0A, CHR 0x0A],
          result = [], header_len = 53, result_len = 0, gw = [192, 168, 4, 1]\<rparr> 13
     = (None, [Tcp_close], ERR_OK)"
proof -
  let ?data = "''GET /favicon.ico HTTP/1.1'' @ [CHR 0x0D, CHR 0x0A, CHR 0x0D, CHR 0x0A]"
  let ?con = "\<lparr>sent_len = 0, headers = [], result = [], header_len = 0, result_len = 0,
                gw = [192 :: u8, 168, 4, 1]\<rparr>"
  let ?hs = "''HTTP/1.1 302 Redirect'' @ [CHR 0x0A] @ ''Location: http://192.168.4.1/'' @
             [CHR 0x0A, CHR 0x0A]"
  have h1: "?data \<noteq> []" by simp
  have h2: "take 3 (cstr (take 127 ?data)) = ''GET''" by (simp add: cstr_def)
  have h3: "request_path (request_target (cstr (take 127 ?data))) \<noteq> ''/''"
    by (simp add: cstr_def request_target_def request_path_def)
  have h4: "gw ?con = [192, 168, 4, 1]" by simp
  note t = redirect_not_root [OF h1 h2 h3 h4, of ERR_OK ERR_OK 0
      "\<lparr>s_alarm_active = False, s_alarm_output_toggle_state = False, s_last_toggle_time_us = 0\<rparr>"]
  from t have r: "tcp_server_recv ERR_OK ERR_OK ERR_OK 0 ?con
       \<lparr>s_alarm_active = False, s_alarm_output_toggle_state = False, s_last_toggle_time_us = 0\<rparr>
       (Some ?data) =
     Inr (Some \<lparr>sent_len = 0, headers = ?hs, result = [], header_len = 53, result_len = 0,
                 gw = [192, 168, 4, 1]\<rparr>,
          \<lparr>s_alarm_active = False, s_alarm_output_toggle_state = False, s_last_toggle_time_us = 0\<rparr>,
          [Tcp_write ?hs, Tcp_recved 29], ERR_OK)"
    by simp
  have a: "tcp_server_sent ERR_OK
       (?con\<lparr>result_len := 0, headers := ?hs, header_len := 53, sent_len := 0\<rparr>) 40 =
       (Some (?con\<lparr>result_len := 0, headers := ?hs, header_len := 53, sent_len := 40\<rparr>), [], ERR_OK)"
    using t [THEN conjunct2, THEN spec, THEN spec, THEN mp, of 0 40] by simp
  have b: "tcp_server_sent ERR_OK
       (?con\<lparr>result_len := 0, headers := ?hs, header_len := 53, sent_len := 40\<rparr>) 13 =
       (None, [Tcp_close], ERR_OK)"
    using t [THEN conjunct2, THEN spec, THEN spec, THEN mp, of 40 13] by simp
  have ne: "?hs \<noteq> ''HTTP/1.1 302 Redirect'' @ [CHR 0x0D, CHR 0x0A] @
       ''Location: http://192.168.4.1/'' @ [CHR 0x0D, CHR 0x0A, CHR 0x0D, CHR 0x0A]"
    by simp
  from r ne a b show ?thesis by simp
qed


subsection \<open>The alarm command of the query string\<close>

text \<open>
  Claim C5 does not hold as stated: the query string \<open>x=1&alarm=on\<close> contains the
  substring \<open>alarm=on\<close>, and the renderer leaves an inactive alarm inactive, with no
  hardware event.
\<close>

theorem alarm_substring_counterexample:
  "map_sum id fst (http_generate_page_content 0 (Some ''x=1&alarm=on'')
       \<lparr>s_alarm_active = False, s_alarm_output_toggle_state = False,
          s_last_toggle_time_us = 0\<rparr>)
     = Inr \<lparr>s_alarm_active = False, s_alarm_output_toggle_state = False,
             s_last_toggle_time_us = 0\<rparr>
   \<and> map_sum id (fst \<circ> snd) (http_generate_page_content 0 (Some ''x=1&alarm=on'')
       \<lparr>s_alarm_active = False, s_alarm_output_toggle_state = False,
          s_last_toggle_time_us = 0\<rparr>)
     = Inr []"
  by (simp add: http_generate_page_content_def sscanf_ALARM_PARAM_STR_def
        alarm_control_is_active_def)

text \<open>
  Claim C5, amended: the renderer scans the query string as \<open>sscanf\<close> does with
  \<open>alarm=%s\<close>, that is, the string must start with \<open>alarm=\<close> and the token is the first
  run of characters without white space after that prefix. When the token is exactly
  \<open>on\<close> the alarm is set active, when it is exactly \<open>off\<close> it is set inactive (either
  one changing the state only if it differs), and an absent query, a query with no such
  token, or any other token of at most three characters leaves the alarm state unchanged
  and causes no hardware event. (A longer token does not fit the four-byte buffer.)
\<close>

theorem http_generate_page_content_command:
  "(Option.bind params sscanf_ALARM_PARAM_STR = Some ''on'' \<longrightarrow>
      map_sum id (\<lambda>r. (fst r, fst (snd r))) (http_generate_page_content now params s)
        = Inr (alarm_control_set_active now True s)
      \<and> s_alarm_active (fst (alarm_control_set_active now True s)))
   \<and> (Option.bind params sscanf_ALARM_PARAM_STR = Some ''off'' \<longrightarrow>
      map_sum id (\<lambda>r. (fst r, fst (snd r))) (http_generate_page_content now params s)
        = Inr (alarm_control_set_active now False s)
      \<and> \<not> s_alarm_active (fst (alarm_control_set_active now False s)))
   \<and> ((case Option.bind params sscanf_ALARM_PARAM_STR of
          None \<Rightarrow> True
        | Some tok \<Rightarrow> length tok \<le> 3 \<and> tok \<noteq> ''on'' \<and> tok \<noteq> ''off'') \<longrightarrow>
      map_sum id (\<lambda>r. (fst r, fst (snd r))) (http_generate_page_content now params s)
        = Inr (s, []))"
proof (intro conjI impI)
  assume on: "Option.bind params sscanf_ALARM_PARAM_STR = Some ''on''"
  then obtain ps where ps: "params = Some ps" "sscanf_ALARM_PARAM_STR ps = Some ''on''"
    by (cases params) auto
  show "map_sum id (\<lambda>r. (fst r, fst (snd r))) (http_generate_page_content now params s)
        = Inr (alarm_control_set_active now True s)"
    using ps
    by (auto simp: http_generate_page_content_def alarm_control_is_active_def
          alarm_control_set_active_def Let_def)
  show "s_alarm_active (fst (alarm_control_set_active now True s))"
    by (simp add: set_active_result)
next
  assume off: "Option.bind params sscanf_ALARM_PARAM_STR = Some ''off''"
  then obtain ps where ps: "params = Some ps" "sscanf_ALARM_PARAM_STR ps = Some ''off''"
    by (cases params) auto
  show "map_sum id (\<lambda>r. (fst r, fst (snd r))) (http_generate_page_content now params s)
        = Inr (alarm_control_set_active now False s)"
    using ps
    by (auto simp: http_generate_page_content_def alarm_control_is_active_def
          alarm_control_set_active_def Let_def)
  show "\<not> s_alarm_active (fst (alarm_control_set_active now False s))"
    by (simp add: set_active_result)
next
  assume other: "case Option.bind params sscanf_ALARM_PARAM_STR of
          None \<Rightarrow> True
        | Some tok \<Rightarrow> length tok \<le> 3 \<and> tok \<noteq> ''on'' \<and> tok \<noteq> ''off''"
  show "map_sum id (\<lambda>r. (fst r, fst (snd r))) (http_generate_page_content now params s)
        = Inr (s, [])"
  proof (cases params)
    case None
    then show ?thesis by (simp add: http_generate_page_content_def Let_def)
  next
    case (Some ps)
    with other show ?thesis
      by (cases "sscanf_ALARM_PARAM_STR ps")
         (simp_all add: http_generate_page_content_def Let_def)
  qed
qed

theorem http_generate_page_content_command_witness:
  "map_sum id (\<lambda>r. (fst r, fst (snd r))) (http_generate_page_content 7 (Some ''alarm=on'')
       \<lparr>s_alarm_active = False, s_alarm_output_toggle_state = True,
          s_last_toggle_time_us = 0\<rparr>)
     = Inr (\<lparr>s_alarm_active = True, s_alarm_output_toggle_state = False,
              s_last_toggle_time_us = 7\<rparr>,
            [Oled_display_update_status True, Gpio_put LED_GREEN_GPIO False])
   \<and> map_sum id (\<lambda>r. (fst r, fst (snd r))) (http_generate_page_content 7 (Some ''alarm=off'')
       \<lparr>s_alarm_active = True, s_alarm_output_toggle_state = True,
          s_last_toggle_time_us = 0\<rparr>)
     = Inr (\<lparr>s_alarm_active = False, s_alarm_output_toggle_state = False,
              s_last_toggle_time_us = 0\<rparr>,
            [Oled_display_update_status False, Gpio_put LED_RED_GPIO False,
             Gpio_put BUZZER_GPIO False, Gpio_put LED_GREEN_GPIO True])
   \<and> map_sum id (\<lambda>r. (fst r, fst (snd r))) (http_generate_page_content 7 (Some ''x=1&alarm=on'')
       \<lparr>s_alarm_active = False, s_alarm_output_toggle_state = True,
          s_last_toggle_time_us = 0\<rparr>)
     = Inr (\<lparr>s_alarm_active = False, s_alarm_output_toggle_state = True,
              s_last_toggle_time_us = 0\<rparr>, [])"
proof -
  have on: "Option.bind (Some ''alarm=on'') sscanf_ALARM_PARAM_STR = Some ''on''"
    by (simp add: sscanf_alarm_on)
  have off: "Option.bind (Some ''alarm=off'') sscanf_ALARM_PARAM_STR = Some ''off''"
    by (simp add: sscanf_alarm_off)
  have other: "case Option.bind (Some ''x=1&alarm=on'') sscanf_ALARM_PARAM_STR of
          None \<Rightarrow> True
        | Some tok \<Rightarrow> length tok \<le> 3 \<and> tok \<noteq> ''on'' \<and> tok \<noteq> ''off''"
    by (simp add: sscanf_ALARM_PARAM_STR_def)
  show ?thesis
    using http_generate_page_content_command [of "Some ''alarm=on''" 7
            "\<lparr>s_alarm_active = False, s_alarm_output_toggle_state = True,
               s_last_toggle_time_us = 0\<rparr>"] on
          http_generate_page_content_command [of "Some ''alarm=off''" 7
            "\<lparr>s_alarm_active = True, s_alarm_output_toggle_state = True,
               s_last_toggle_time_us = 0\<rparr>"] off
          http_generate_page_content_command [of "Some ''x=1&alarm=on''" 7
            "\<lparr>s_alarm_active = False, s_alarm_output_toggle_state = True,
               s_last_toggle_time_us = 0\<rparr>"] other
    by (simp add: alarm_control_set_active_def)
qed

subsection \<open>Two requests for the active alarm in a row\<close>

lemma recv_alarm_on:
  assumes "data \<noteq> []"
    and "take 3 (cstr (take 127 data)) = ''GET''"
    and "request_path (request_target (cstr (take 127 data))) = ''/''"
    and "request_params (request_target (cstr (take 127 data))) = Some ''alarm=on''"
  shows "tcp_server_recv ERR_OK ERR_OK close_res now con_state a (Some data) =
     Inr (Some (con_state\<lparr>result := ALARM_PAGE_BODY ''on'' ''LIGADO'' ''off'' ''off'' ''Desligar'',
                  result_len := 1025, headers := HTTP_RESPONSE_HEADERS 200 1025,
                  header_len := 95, sent_len := 0\<rparr>),
          fst (alarm_control_set_active now True a),
          snd (alarm_control_set_active now True a) @
          [Tcp_write (HTTP_RESPONSE_HEADERS 200 1025),
           Tcp_write (ALARM_PAGE_BODY ''on'' ''LIGADO'' ''off'' ''off'' ''Desligar''),
           Tcp_recved (length data)],
          ERR_OK)"
proof -
  let ?body = "ALARM_PAGE_BODY ''on'' ''LIGADO'' ''off'' ''off'' ''Desligar''"
  let ?hs = "HTTP_RESPONSE_HEADERS 200 1025"
  let ?c = "con_state\<lparr>result := ?body, result_len := 1025, headers := take 127 ?hs,
              header_len := 95\<rparr>"
  have page: "http_generate_page_content now (Some ''alarm=on'') a =
      Inr (fst (alarm_control_set_active now True a),
           snd (alarm_control_set_active now True a), ?body)"
    by (cases "s_alarm_active a")
       (simp_all add: page_when_active page_when_inactive alarm_control_set_active_def)
  have tk: "take 127 ?hs = ?hs" "take 95 ?hs = ?hs" "take 1025 ?body = ?body"
    by (simp_all add: length_headers_1025 length_body_on)
  have send: "tcp_server_recv_send ERR_OK ERR_OK close_res (length data) ?c =
      (Some (?c\<lparr>sent_len := 0\<rparr>), [Tcp_write ?hs, Tcp_write ?body, Tcp_recved (length data)], ERR_OK)"
    by (subst recv_send_ok) (simp_all add: tk)
  show ?thesis
    using assms send
    by (simp add: tcp_server_recv_def copy_len_take page length_body_on length_headers_1025
          tk Let_def)
qed

text \<open>
  Claim C6: a request that starts with \<open>GET\<close>, has the path \<open>/\<close> and the query string
  \<open>alarm=on\<close>, received twice (each on its own connection, lwIP accepting the writes),
  from any alarm state and with any number of runs of the blink policy
  \<open>alarm_control_process\<close> in between: after the first request the alarm is active; the
  second request leaves the alarm state as it finds it, active, and its trace holds no
  display update and no GPIO write, only the two \<open>tcp_write\<close> calls and \<open>tcp_recved\<close>;
  and the two requests write the same headers and the same body.
\<close>

theorem get_alarm_on_twice:
  assumes "data \<noteq> []"
    and "take 3 (cstr (take 127 data)) = ''GET''"
    and "request_path (request_target (cstr (take 127 data))) = ''/''"
    and "request_params (request_target (cstr (take 127 data))) = Some ''alarm=on''"
  shows "tcp_server_recv ERR_OK ERR_OK cr1 t1 con1 a (Some data) =
        Inr (Some (con1\<lparr>result := ALARM_PAGE_BODY ''on'' ''LIGADO'' ''off'' ''off'' ''Desligar'',
                     result_len := 1025, headers := HTTP_RESPONSE_HEADERS 200 1025,
                     header_len := 95, sent_len := 0\<rparr>),
             fst (alarm_control_set_active t1 True a),
             (if s_alarm_active a then []
              else [Oled_display_update_status True, Gpio_put LED_GREEN_GPIO False]) @
             [Tcp_write (HTTP_RESPONSE_HEADERS 200 1025),
              Tcp_write (ALARM_PAGE_BODY ''on'' ''LIGADO'' ''off'' ''off'' ''Desligar''),
              Tcp_recved (length data)],
             ERR_OK)
    \<and> s_alarm_active (fst (alarm_control_set_active t1 True a))
    \<and> s_alarm_active (foldl (\<lambda>s t. fst (alarm_control_process t s))
          (fst (alarm_control_set_active t1 True a)) ts)
    \<and> tcp_server_recv ERR_OK ERR_OK cr2 t2 con2
          (foldl (\<lambda>s t. fst (alarm_control_process t s))
             (fst (alarm_control_set_active t1 True a)) ts) (Some data) =
        Inr (Some (con2\<lparr>result := ALARM_PAGE_BODY ''on'' ''LIGADO'' ''off'' ''off'' ''Desligar'',
                     result_len := 1025, headers := HTTP_RESPONSE_HEADERS 200 1025,
                     header_len := 95, sent_len := 0\<rparr>),
             foldl (\<lambda>s t. fst (alarm_control_process t s))
               (fst (alarm_control_set_active t1 True a)) ts,
             [Tcp_write (HTTP_RESPONSE_HEADERS 200 1025),
              Tcp_write (ALARM_PAGE_BODY ''on'' ''LIGADO'' ''off'' ''off'' ''Desligar''),
              Tcp_recved (length data)],
             ERR_OK)"
proof -
  let ?a1 = "fst (alarm_control_set_active t1 True a)"
  let ?a2 = "foldl (\<lambda>s t. fst (alarm_control_process t s)) ?a1 ts"
  have act1: "s_alarm_active ?a1" by (simp add: set_active_result)
  have act2: "s_alarm_active ?a2" by (simp add: processes_keep_active act1)
  have idem: "alarm_control_set_active t2 True ?a2 = (?a2, [])"
    using act2 by (simp add: alarm_control_set_active_def)
  have hw: "snd (alarm_control_set_active t1 True a) =
      (if s_alarm_active a then []
       else [Oled_display_update_status True, Gpio_put LED_GREEN_GPIO False])"
    by (simp add: alarm_control_set_active_def)
  show ?thesis
    using recv_alarm_on [OF assms, of cr1 t1 con1 a] recv_alarm_on [OF assms, of cr2 t2 con2 ?a2]
      act1 act2 hw
    by (simp add: idem)
qed

theorem get_alarm_on_twice_witness:
  "tcp_server_recv ERR_OK ERR_OK ERR_OK 1000
          \<lparr>sent_len = 0, headers = [], result = [], header_len = 0, result_len = 0,
             gw = [192, 168, 4, 1]\<rparr>
          \<lparr>s_alarm_active = False, s_alarm_output_toggle_state = False,
             s_last_toggle_time_us = 0\<rparr>
          (Some (''GET /?alarm=on HTTP/1.1'' @ [CHR 0x0D, CHR 0x0A, CHR 0x0D, CHR 0x0A])) =
        Inr (Some \<lparr>sent_len = 0, headers = HTTP_RESPONSE_HEADERS 200 1025,
                    result = ALARM_PAGE_BODY ''on'' ''LIGADO'' ''off'' ''off'' ''Desligar'',
                    header_len = 95, result_len = 1025, gw = [192, 168, 4, 1]\<rparr>,
             \<lparr>s_alarm_active = True, s_alarm_output_toggle_state = False,
                s_last_toggle_time_us = 1000\<rparr>,
             [Oled_display_update_status True, Gpio_put LED_GREEN_GPIO False,
              Tcp_write (HTTP_RESPONSE_HEADERS 200 1025),
              Tcp_write (ALARM_PAGE_BODY ''on'' ''LIGADO'' ''off'' ''off'' ''Desligar''),
              Tcp_recved 27],
             ERR_OK)
    \<and> tcp_server_recv ERR_OK ERR_OK ERR_OK 900000
          \<lparr>sent_len = 0, headers = [], result = [], header_len = 0, result_len = 0,
             gw = [192, 168, 4, 1]\<rparr>
          \<lparr>s_alarm_active = True, s_alarm_output_toggle_state = True,
             s_last_toggle_time_us = 600000\<rparr>
          (Some (''GET /?alarm=on HTTP/1.1'' @ [CHR 0x0D, CHR 0x0A, CHR 0x0D, CHR 0x0A])) =
        Inr (Some \<lparr>sent_len = 0, headers = HTTP_RESPONSE_HEADERS 200 1025,
                    result = ALARM_PAGE_BODY ''on'' ''LIGADO'' ''off'' ''off'' ''Desligar'',
                    header_len = 95, result_len = 1025, gw = [192, 168, 4, 1]\<rparr>,
             \<lparr>s_alarm_active = True, s_alarm_output_toggle_state = True,
                s_last_toggle_time_us = 600000\<rparr>,
             [Tcp_write (HTTP_RESPONSE_HEADERS 200 1025),
              Tcp_write (ALARM_PAGE_BODY ''on'' ''LIGADO'' ''off'' ''off'' ''Desligar''),
              Tcp_recved 27],
             ERR_OK)"
proof -
  let ?data = "''GET /?alarm=on HTTP/1.1'' @ [CHR 0x0D, CHR 0x0A, CHR 0x0D, CHR 0x0A]"
  let ?a = "\<lparr>s_alarm_active = False, s_alarm_output_toggle_state = False,
              s_last_toggle_time_us = 0\<rparr>"
  have h1: "?data \<noteq> []" by simp
  have h2: "take 3 (cstr (take 127 ?data)) = ''GET''" by (simp add: cstr_def)
  have h3: "request_path (request_target (cstr (take 127 ?data))) = ''/''"
    by (simp add: cstr_def request_target_def request_path_def)
  have h4: "request_params (request_target (cstr (take 127 ?data))) = Some ''alarm=on''"
    by (simp add: cstr_def request_target_def request_params_def)
  have a1: "fst (alarm_control_set_active 1000 True ?a) =
      \<lparr>s_alarm_active = True, s_alarm_output_toggle_state = False, s_last_toggle_time_us = 1000\<rparr>"
    by (simp add: alarm_control_set_active_def)
  have a2: "foldl (\<lambda>s t. fst (alarm_control_process t s))
       \<lparr>s_alarm_active = True, s_alarm_output_toggle_state = False, s_last_toggle_time_us = 1000\<rparr>
       [600000] =
      \<lparr>s_alarm_active = True, s_alarm_output_toggle_state = True, s_last_toggle_time_us = 600000\<rparr>"
    by (simp add: alarm_control_process_def ALARM_BLINK_INTERVAL_MS_def)
  have len: "length ?data = 27" by simp
  show ?thesis
    using get_alarm_on_twice [OF h1 h2 h3 h4, of ERR_OK 1000
        "\<lparr>sent_len = 0, headers = [], result = [], header_len = 0, result_len = 0,
           gw = [192, 168, 4, 1]\<rparr>" ?a
        "[600000]" ERR_OK 900000
        "\<lparr>sent_len = 0, headers = [], result = [], header_len = 0, result_len = 0,
           gw = [192, 168, 4, 1]\<rparr>"]
    unfolding a1 a2 len by simp
qed

section \<open>DNS server\<close>

lemma dns_encode_name_Cons:
  "dns_encode_name (l # ls) = of_nat (length l) # l @ dns_encode_name ls"
  by (simp add: dns_encode_name_def)

lemma dns_encode_name_Nil: "dns_encode_name [] = [0]"
  by (simp add: dns_encode_name_def)

lemma label_len_byte:
  assumes "l \<noteq> []" "length l \<le> 63"
  shows "(of_nat (length l) :: u8) \<noteq> 0" and "unat (of_nat (length l) :: u8) = length l"
proof -
  have "length l < 256" using assms by simp
  then show u: "unat (of_nat (length l) :: u8) = length l"
    by (simp add: unat_of_nat)
  have "0 < length l" using assms by simp
  with u show "(of_nat (length l) :: u8) \<noteq> 0"
    by (metis unat_0 less_numeral_extra(3))
qed

lemma skip_question_name_encoded:
  assumes "\<forall>l \<in> set labels. l \<noteq> [] \<and> length l \<le> 63"
    and "length pre + length (dns_encode_name labels) \<le> e"
  shows "skip_question_name (pre @ dns_encode_name labels @ post) (length pre) e =
           Some (length pre + length (dns_encode_name labels))"
  using assms
proof (induction labels arbitrary: pre)
  case Nil
  then show ?case
    by (subst skip_question_name.simps) (simp add: dns_encode_name_Nil)
next
  case (Cons l ls)
  have l: "l \<noteq> []" "length l \<le> 63" using Cons.prems(1) by simp_all
  let ?pre = "pre @ of_nat (length l) # l"
  have buf: "pre @ dns_encode_name (l # ls) @ post = ?pre @ dns_encode_name ls @ post"
    by (simp add: dns_encode_name_Cons)
  have ih: "skip_question_name (?pre @ dns_encode_name ls @ post) (length ?pre) e =
           Some (length ?pre + length (dns_encode_name ls))"
    using Cons.prems by (intro Cons.IH) (simp_all add: dns_encode_name_Cons)
  have at: "(pre @ dns_encode_name (l # ls) @ post) ! length pre = of_nat (length l)"
    by (simp add: dns_encode_name_Cons)
  have lt: "length pre < e" using Cons.prems(2) by (simp add: dns_encode_name_Cons)
  show ?case
    apply (subst skip_question_name.simps)
    using ih lt l
    by (simp add: at label_len_byte Let_def buf dns_encode_name_Cons)
qed

lemma u32_bytes_gw: "u32_bytes (IP4_ADDR 192 168 4 1) = [192, 168, 4, 1]"
  by (simp add: u32_bytes_def IP4_ADDR_def lwip_htonl_def LWIP_MAKEU32_def)

lemma dns_reply_header_bytes:
  "u16_bytes (PP_HTONS (push_bit 15 0x1 OR push_bit 10 0x1 OR push_bit 7 0x1)) @
   u16_bytes (PP_HTONS 1) @ u16_bytes (PP_HTONS 1) @ u16_bytes 0 @ u16_bytes 0 =
   [0x84, 0x80, 0, 1, 0, 1, 0, 0, 0, 0]"
  by (simp add: u16_bytes_def PP_HTONS_def)

lemma dns_hdr_field_append:
  "off + 1 < length hdr \<Longrightarrow> dns_hdr_field (hdr @ rest) off = dns_hdr_field hdr off"
  by (simp add: dns_hdr_field_def nth_append)

lemma write_bytes_at_end:
  "length bs = n \<Longrightarrow> write_bytes (pre @ rest) (length pre) bs = pre @ bs @ drop n rest"
  by (simp add: write_bytes_def)

lemma dns_process_buf:
  assumes copy: "pbuf_copy_partial pkt MAX_DNS_MSG_SIZE stack = (buf, msg_len)"
    and len: "\<not> msg_len < 12"
    and qr: "drop_bit 15 (dns_hdr_field buf 2) AND 0x1 = 0"
    and opcode: "drop_bit 11 (dns_hdr_field buf 2) AND 0xf = 0"
    and qd: "\<not> dns_hdr_field buf 4 < 1"
    and walk: "skip_question_name buf 12 msg_len = Some qp"
    and name: "\<not> 255 < qp - 12"
    and small: "\<not> 0xffff < qp + 4 + 16"
  shows "dns_server_process d stack pkt src_addr src_port =
     Some \<lparr>payload = take (qp + 4 + 16)
              (write_bytes
                 (write_bytes buf (qp + 4)
                    ([0xc0, 12, 0, 1, 0, 1, 0, 0, 0, 60, 0, 4] @ u32_bytes (dns_server_t.ip d)))
                 2 [0x84, 0x80, 0, 1, 0, 1, 0, 0, 0, 0]),
           dest_addr = src_addr, dest_port = src_port\<rparr>"
  unfolding dns_server_process_def copy Let_def prod.case dns_reply_header_bytes
  using len qr opcode qd name small
  by (simp only: walk if_False if_True option.case simp_thms)

text \<open>
  Claim C3: a datagram that consists of a 12-byte header with the QR bit clear, opcode 0
  and a question count of at least 1, the name of the question as labels of 1 to 63
  bytes ended by a zero byte, 255 bytes at most in all, the four bytes of type and class,
  and anything after them, is answered, on a server set up with 192.168.4.1, by one
  datagram to the source address and port of the query: the two bytes of the transaction
  id, the flags \<open>0x8480\<close> (QR, AA and RA), the counts 1, 1, 0, 0, the name and the four
  bytes of type and class as received, and the answer \<open>C0 0C\<close>, type 1, class 1, TTL 60,
  RDLENGTH 4, RDATA 192.168.4.1.
\<close>

theorem dns_answers_every_standard_query:
  assumes stack: "length stack = MAX_DNS_MSG_SIZE"
    and hdr: "length hdr = 12"
    and qr: "drop_bit 15 (dns_hdr_field hdr 2) AND 0x1 = 0"
    and opcode: "drop_bit 11 (dns_hdr_field hdr 2) AND 0xf = 0"
    and qd: "dns_hdr_field hdr 4 \<ge> 1"
    and labels: "\<forall>l \<in> set labels. l \<noteq> [] \<and> length l \<le> 63"
    and name: "length (dns_encode_name labels) \<le> 255"
    and qq: "length qtype_qclass = 4"
    and ip: "dns_server_t.ip d = IP4_ADDR 192 168 4 1"
  shows "dns_server_process d stack (hdr @ dns_encode_name labels @ qtype_qclass @ extra)
           src_addr src_port =
         Some \<lparr>payload = take 2 hdr @ [0x84, 0x80, 0, 1, 0, 1, 0, 0, 0, 0] @
                          dns_encode_name labels @ qtype_qclass @
                          [0xC0, 0x0C, 0, 1, 0, 1, 0, 0, 0, 60, 0, 4, 192, 168, 4, 1],
               dest_addr = src_addr, dest_port = src_port\<rparr>"
proof -
  let ?name = "dns_encode_name labels"
  let ?n = "length ?name"
  let ?pkt = "hdr @ ?name @ qtype_qclass @ extra"
  let ?q = "hdr @ ?name @ qtype_qclass"
  define tail where "tail = take (284 - ?n) extra @ drop (min 300 (length ?pkt)) stack"
  define msg_len where "msg_len = min 300 (length ?pkt)"
  define qp where "qp = 12 + ?n"
  have lq: "length ?q = qp + 4" using hdr qq by (simp add: qp_def)
  have copy: "pbuf_copy_partial ?pkt MAX_DNS_MSG_SIZE stack = (?q @ tail, msg_len)"
    using hdr qq name by (simp add: pbuf_copy_partial_def MAX_DNS_MSG_SIZE_def tail_def msg_len_def)
  have ml: "qp + 4 \<le> msg_len" using hdr qq name by (simp add: msg_len_def qp_def)
  have f2: "dns_hdr_field (?q @ tail) 2 = dns_hdr_field hdr 2"
    and f4: "dns_hdr_field (?q @ tail) 4 = dns_hdr_field hdr 4"
    using hdr by (simp_all add: dns_hdr_field_append)
  have walk: "skip_question_name (?q @ tail) 12 msg_len = Some qp"
    using skip_question_name_encoded [OF labels, of hdr msg_len "qtype_qclass @ tail"] ml hdr
    by (simp add: qp_def)
  let ?ans = "[0xc0, 12, 0, 1, 0, 1, 0, 0, 0, 60, 0, 4] @ u32_bytes (dns_server_t.ip d) :: u8 list"
  define A where "A = take 2 hdr @ [0x84, 0x80, 0, 1, 0, 1, 0, 0, 0, 0] @ ?name @ qtype_qclass @ ?ans"
  have w1: "write_bytes (?q @ tail) (qp + 4) ?ans = ?q @ ?ans @ drop 16 tail"
  proof -
    have "length ?ans = 16" by (simp add: u32_bytes_def)
    from write_bytes_at_end [OF this, of ?q tail] show ?thesis unfolding lq .
  qed
  have w2: "write_bytes (?q @ ?ans @ drop 16 tail) 2 [0x84, 0x80, 0, 1, 0, 1, 0, 0, 0, 0] =
      A @ drop 16 tail"
    using hdr by (simp add: write_bytes_def A_def)
  have la: "length A = qp + 4 + 16"
    using hdr qq by (simp add: A_def u32_bytes_def qp_def)
  have tk: "take (qp + 4 + 16) (A @ drop 16 tail) = A"
    using la by simp
  have nz: "\<not> msg_len < 12" using ml by (simp add: qp_def)
  have small: "\<not> 255 < qp - 12" "\<not> 0xffff < qp + 4 + 16" using name by (simp_all add: qp_def)
  have qd': "\<not> dns_hdr_field (?q @ tail) 4 < 1" using qd unfolding f4 by auto
  have qr': "drop_bit 15 (dns_hdr_field (?q @ tail) 2) AND 0x1 = 0" unfolding f2 by (rule qr)
  have op': "drop_bit 11 (dns_hdr_field (?q @ tail) 2) AND 0xf = 0" unfolding f2 by (rule opcode)
  have "dns_server_process d stack ?pkt src_addr src_port =
      Some \<lparr>payload = A, dest_addr = src_addr, dest_port = src_port\<rparr>"
    unfolding dns_process_buf [OF copy nz qr' op' qd' walk small] w1 w2 tk ..
  then show ?thesis
    by (simp add: A_def ip u32_bytes_gw)
qed

theorem dns_answers_every_standard_query_witness:
  "dns_server_process \<lparr>dns_server_t.ip = IP4_ADDR 192 168 4 1\<rparr> (replicate 300 0xAA)
     [0x12, 0x34, 0x01, 0x00, 0, 1, 0, 0, 0, 0, 0, 0,
      3, 119, 119, 119, 7, 101, 120, 97, 109, 112, 108, 101, 3, 99, 111, 109, 0,
      0, 1, 0, 1]
     (IP4_ADDR 192 168 4 16) 5353 =
   Some \<lparr>payload =
           [0x12, 0x34, 0x84, 0x80, 0, 1, 0, 1, 0, 0, 0, 0,
            3, 119, 119, 119, 7, 101, 120, 97, 109, 112, 108, 101, 3, 99, 111, 109, 0,
            0, 1, 0, 1,
            0xC0, 0x0C, 0, 1, 0, 1, 0, 0, 0, 60, 0, 4, 192, 168, 4, 1],
         dest_addr = IP4_ADDR 192 168 4 16, dest_port = 5353\<rparr>"
proof -
  let ?hdr = "[0x12, 0x34, 0x01, 0x00, 0, 1, 0, 0, 0, 0, 0, 0] :: u8 list"
  let ?labels = "[[119, 119, 119], [101, 120, 97, 109, 112, 108, 101], [99, 111, 109]] :: u8 list list"
  let ?qq = "[0, 1, 0, 1] :: u8 list"
  let ?d = "\<lparr>dns_server_t.ip = IP4_ADDR 192 168 4 1\<rparr>"
  have h1: "length (replicate 300 (0xAA :: u8)) = MAX_DNS_MSG_SIZE"
    by (simp add: MAX_DNS_MSG_SIZE_def)
  have h2: "length ?hdr = 12" by simp
  have h3: "drop_bit 15 (dns_hdr_field ?hdr 2) AND 0x1 = 0"
    by (simp add: dns_hdr_field_def PP_HTONS_def u16_load_def)
  have h4: "drop_bit 11 (dns_hdr_field ?hdr 2) AND 0xf = 0"
    by (simp add: dns_hdr_field_def PP_HTONS_def u16_load_def)
  have h5: "dns_hdr_field ?hdr 4 \<ge> 1"
    by (simp add: dns_hdr_field_def PP_HTONS_def u16_load_def)
  have h6: "\<forall>l \<in> set ?labels. l \<noteq> [] \<and> length l \<le> 63" by simp
  have h7: "length (dns_encode_name ?labels) \<le> 255" by (simp add: dns_encode_name_def)
  have h8: "length ?qq = 4" by simp
  have h9: "dns_server_t.ip ?d = IP4_ADDR 192 168 4 1" by simp
  show ?thesis
    using dns_answers_every_standard_query [OF h1 h2 h3 h4 h5 h6 h7 h8 h9, of "[]"
        "IP4_ADDR 192 168 4 16" 5353]
    by (simp add: dns_encode_name_def)
qed


section \<open>DHCP server: lemmas\<close>

declare opt_find.simps [simp del] discover_scan.simps [simp del]
  request_scan_mac.simps [simp del] request_scan_free.simps [simp del]
  skip_question_name.simps [simp del] dec_str.simps [simp del]

lemmas dhcp_consts = DHCPDISCOVER_def DHCPOFFER_def DHCPREQUEST_def DHCPACK_def
  DHCP_OPT_PAD_def DHCP_OPT_SUBNET_MASK_def DHCP_OPT_ROUTER_def DHCP_OPT_DNS_def
  DHCP_OPT_IP_LEASE_TIME_def DHCP_OPT_MSG_TYPE_def DHCP_OPT_SERVER_ID_def DHCP_OPT_END_def
  PORT_DHCP_CLIENT_def DEFAULT_LEASE_TIME_S_def MAC_LEN_def DHCPS_BASE_IP_def DHCPS_MAX_IP_def
  sizeof_dhcp_msg_t_def DHCP_FIXED_PART_SIZE_def DHCP_MIN_REQUIRED_SIZE_def

lemma length_write_bytes:
  "off + length bs \<le> length buf \<Longrightarrow> length (write_bytes buf off bs) = length buf"
  by (simp add: write_bytes_def)

lemma take_write_bytes_end:
  "off \<le> length buf \<Longrightarrow> take (off + length bs) (write_bytes buf off bs) = take off buf @ bs"
  by (simp add: write_bytes_def)

lemma take_write_bytes_before:
  "n \<le> off \<Longrightarrow> off \<le> length buf \<Longrightarrow> take n (write_bytes buf off bs) = take n buf"
  by (simp add: write_bytes_def min_def)

lemma nth_write_bytes:
  "off + length bs \<le> length buf \<Longrightarrow> i < length buf \<Longrightarrow>
   write_bytes buf off bs ! i = (if off \<le> i \<and> i < off + length bs then bs ! (i - off) else buf ! i)"
  by (auto simp: write_bytes_def nth_append)

lemma length_pbuf_copy_partial:
  "length stack = len \<Longrightarrow> length (fst (pbuf_copy_partial pkt len stack)) = len"
  by (simp add: pbuf_copy_partial_def)

lemma u32_bytes_length: "length (u32_bytes v) = 4"
  by (simp add: u32_bytes_def)

lemma lease_time_bytes:
  "ucast (drop_bit 24 (lwip_htonl (of_nat DEFAULT_LEASE_TIME_S))) = (0x80 :: u8)"
  "ucast (drop_bit 16 (lwip_htonl (of_nat DEFAULT_LEASE_TIME_S))) = (0x51 :: u8)"
  "ucast (drop_bit 8 (lwip_htonl (of_nat DEFAULT_LEASE_TIME_S))) = (0x01 :: u8)"
  "ucast (lwip_htonl (of_nat DEFAULT_LEASE_TIME_S)) = (0x00 :: u8)"
  by (simp_all add: lwip_htonl_def DEFAULT_LEASE_TIME_S_def)

lemma dhcp_socket_sendto_broadcast:
  "dhcp_socket_sendto buf len 0xFFFFFFFF port =
     \<lparr>payload = take (if len > 0xffff then 0xffff else len) buf,
      dest_addr = IP4_ADDR 255 255 255 255, dest_port = port\<rparr>"
  by (simp add: dhcp_socket_sendto_def)

lemma dhcp_send_reply_not_ack:
  assumes len: "length buf = 548" and t: "t \<noteq> DHCPACK"
  shows "dhcp_send_reply d (buf, 243) t =
     \<lparr>payload = take 243 buf @ common_options d,
      dest_addr = IP4_ADDR 255 255 255 255, dest_port = 68\<rparr>"
proof -
  let ?s1 = "[54, 4, ucast (drop_bit 24 (ip d)), ucast (drop_bit 16 (ip d)), ucast (drop_bit 8 (ip d)), ucast (ip d)] :: u8 list"
  let ?s2 = "[1, 4] @ u32_bytes (nm d) :: u8 list"
  let ?s3 = "[3, 4] @ u32_bytes (ip d) :: u8 list"
  let ?s4 = "[6, 4] @ u32_bytes (ip d) :: u8 list"
  let ?s5 = "[51, 4, 0x80, 0x51, 0x01, 0x00] :: u8 list"
  let ?b1 = "write_bytes buf 243 ?s1"
  let ?b2 = "write_bytes ?b1 249 ?s2"
  let ?b3 = "write_bytes ?b2 255 ?s3"
  let ?b4 = "write_bytes ?b3 261 ?s4"
  let ?b5 = "write_bytes ?b4 267 ?s5"
  let ?b6 = "write_bytes ?b5 273 [255]"
  have l1: "length ?b1 = 548" using len by (simp add: length_write_bytes)
  have l2: "length ?b2 = 548" using l1 by (simp add: length_write_bytes u32_bytes_length)
  have l3: "length ?b3 = 548" using l2 by (simp add: length_write_bytes u32_bytes_length)
  have l4: "length ?b4 = 548" using l3 by (simp add: length_write_bytes u32_bytes_length)
  have l5: "length ?b5 = 548" using l4 by (simp add: length_write_bytes)
  have t1: "take 249 ?b1 = take 243 buf @ ?s1"
    using take_write_bytes_end [of 243 buf ?s1] len by simp
  have t2: "take 255 ?b2 = take 249 ?b1 @ ?s2"
    using take_write_bytes_end [of 249 ?b1 ?s2] l1 by (simp add: u32_bytes_length)
  have t3: "take 261 ?b3 = take 255 ?b2 @ ?s3"
    using take_write_bytes_end [of 255 ?b2 ?s3] l2 by (simp add: u32_bytes_length)
  have t4: "take 267 ?b4 = take 261 ?b3 @ ?s4"
    using take_write_bytes_end [of 261 ?b3 ?s4] l3 by (simp add: u32_bytes_length)
  have t5: "take 273 ?b5 = take 267 ?b4 @ ?s5"
    using take_write_bytes_end [of 267 ?b4 ?s5] l4 by simp
  have t6: "take 274 ?b6 = take 273 ?b5 @ [255]"
    using take_write_bytes_end [of 273 ?b5 "[255]"] l5 by simp
  have all: "take 274 ?b6 = take 243 buf @ common_options d"
    unfolding t6 t5 t4 t3 t2 t1
    by (simp add: common_options_def lease_time_bytes DHCP_OPT_SERVER_ID_def
          DHCP_OPT_SUBNET_MASK_def DHCP_OPT_ROUTER_def DHCP_OPT_DNS_def
          DHCP_OPT_IP_LEASE_TIME_def DHCP_OPT_END_def)
  show ?thesis
    using t all
    by (simp add: dhcp_send_reply_def opt_write_u32_def opt_write_n_def dhcp_socket_sendto_broadcast
          Let_def lease_time_bytes u32_bytes_length
          DHCP_OPT_SERVER_ID_def DHCP_OPT_SUBNET_MASK_def DHCP_OPT_ROUTER_def DHCP_OPT_DNS_def
          DHCP_OPT_IP_LEASE_TIME_def DHCP_OPT_END_def PORT_DHCP_CLIENT_def)
qed

lemma nth_pbuf_copy_partial:
  "i < len \<Longrightarrow> i < length pkt \<Longrightarrow> fst (pbuf_copy_partial pkt len stack) ! i = pkt ! i"
  by (simp add: pbuf_copy_partial_def nth_append)

lemma dhcp_parse_buf:
  "dhcp_parse stack pkt = Inr (Some (m, t)) \<Longrightarrow> m = fst (pbuf_copy_partial pkt sizeof_dhcp_msg_t stack)"
  by (auto simp: dhcp_parse_def Let_def split: if_splits prod.splits sum.splits option.splits)

lemma dhcp_parse_length:
  "dhcp_parse stack pkt = Inr (Some (m, t)) \<Longrightarrow> length stack = 548 \<Longrightarrow> length m = 548"
  using dhcp_parse_buf [of stack pkt m t] length_pbuf_copy_partial [of stack 548 pkt]
  by (simp add: sizeof_dhcp_msg_t_def)

lemma opt_find_first: "opt ! 0 = cmd \<Longrightarrow> cmd \<noteq> DHCP_OPT_END \<Longrightarrow> opt_find opt cmd 0 = Inr (Some 0)"
  by (subst opt_find.simps) simp

lemma dhcp_parse_of_buf:
  assumes copy: "pbuf_copy_partial pkt sizeof_dhcp_msg_t stack = (m, len_copied)"
    and l1: "\<not> length pkt < DHCP_MIN_REQUIRED_SIZE"
    and l2: "\<not> len_copied < DHCP_MIN_REQUIRED_SIZE"
    and cookie: "m ! 236 = 0x63" "m ! 237 = 0x82" "m ! 238 = 0x53" "m ! 239 = 0x63"
    and find: "opt_find (drop 240 m) DHCP_OPT_MSG_TYPE 0 = Inr (Some i)"
    and i: "i + 2 < 312 - 4"
    and o1: "drop 240 m ! (i + 1) = 1"
  shows "dhcp_parse stack pkt = Inr (Some (m, drop 240 m ! (i + 2)))"
proof -
  have i1: "i + 1 < 312 - 4" using i by simp
  show ?thesis
    unfolding dhcp_parse_def copy Let_def prod.case find
    using l1 l2 cookie i i1 o1
    by (simp only: if_False if_True sum.case option.case simp_thms not_not)
qed

lemma dhcp_parse_type_first:
  assumes stack: "length stack = 548" and fixed: "length fixed = 236"
  shows "dhcp_parse stack (fixed @ [0x63, 0x82, 0x53, 0x63, 53, 1, t] @ rest) =
           Inr (Some (fst (pbuf_copy_partial (fixed @ [0x63, 0x82, 0x53, 0x63, 53, 1, t] @ rest)
                             sizeof_dhcp_msg_t stack), t))"
proof -
  let ?pkt = "fixed @ [0x63, 0x82, 0x53, 0x63, 53, 1, t] @ rest"
  define m where "m = fst (pbuf_copy_partial ?pkt sizeof_dhcp_msg_t stack)"
  define len_copied where "len_copied = min 548 (length ?pkt)"
  have copy: "pbuf_copy_partial ?pkt sizeof_dhcp_msg_t stack = (m, len_copied)"
    by (simp add: m_def len_copied_def pbuf_copy_partial_def sizeof_dhcp_msg_t_def)
  have lp: "243 \<le> length ?pkt" using fixed by simp
  have nth: "i < 243 \<Longrightarrow> m ! i = ?pkt ! i" for i
    unfolding m_def sizeof_dhcp_msg_t_def using lp by (intro nth_pbuf_copy_partial) simp_all
  have lm: "length m = 548"
    using stack by (simp add: m_def pbuf_copy_partial_def sizeof_dhcp_msg_t_def)
  have b: "m ! 236 = 0x63" "m ! 237 = 0x82" "m ! 238 = 0x53" "m ! 239 = 0x63"
          "m ! 240 = 53" "m ! 241 = 1" "m ! 242 = t"
    using fixed by (simp_all add: nth nth_append)
  have find: "opt_find (drop 240 m) DHCP_OPT_MSG_TYPE 0 = Inr (Some 0)"
    using lm b by (intro opt_find_first) (simp_all add: DHCP_OPT_MSG_TYPE_def DHCP_OPT_END_def)
  have o1: "drop 240 m ! (0 + 1) = 1" and o2: "drop 240 m ! (0 + 2) = t"
    using lm b by simp_all
  have l1: "\<not> length ?pkt < DHCP_MIN_REQUIRED_SIZE"
    using lp by (simp add: DHCP_MIN_REQUIRED_SIZE_def DHCP_FIXED_PART_SIZE_def)
  have l2: "\<not> len_copied < DHCP_MIN_REQUIRED_SIZE"
    using lp by (simp add: len_copied_def DHCP_MIN_REQUIRED_SIZE_def DHCP_FIXED_PART_SIZE_def)
  have "0 + 2 < (312::nat) - 4" by simp
  from dhcp_parse_of_buf [OF copy l1 l2 b(1-4) find this o1]
  have "dhcp_parse stack ?pkt = Inr (Some (m, t))" unfolding o2 .
  then show ?thesis unfolding m_def .
qed

lemma write_bytes_idem:
  "off + length bs \<le> length buf \<Longrightarrow> write_bytes (write_bytes buf off bs) off bs = write_bytes buf off bs"
  by (simp add: write_bytes_def)

lemma chaddr_write_before:
  "off + length bs \<le> 28 \<Longrightarrow> 28 \<le> length buf \<Longrightarrow> chaddr (write_bytes buf off bs) = chaddr buf"
  by (simp add: chaddr_def write_bytes_def)

lemma chaddr_reply_prefix:
  assumes "length m = 548"
  shows "chaddr (write_bytes (m[0 := 2]) 20 (u32_bytes (ip d))) = chaddr m"
  using assms chaddr_write_before [of 20 "u32_bytes (ip d)" "m[0 := 2]"]
  by (simp add: u32_bytes_length chaddr_def drop_update_cancel)

lemma length_reply_m2:
  assumes "length m = 548"
  shows "length ((write_bytes (write_bytes (m[0 := 2]) 20 (u32_bytes (ip d))) 16 (u32_bytes (ip d)))[19 := x]) = 548"
  using assms by (simp add: length_write_bytes u32_bytes_length)

lemma length_dhcp_reply_msg: "length m = 548 \<Longrightarrow> length (dhcp_reply_msg d m x t) = 548"
  by (simp add: dhcp_reply_msg_def length_write_bytes u32_bytes_length)

lemma common_options_lease: "common_options (d\<lparr>lease := l\<rparr>) = common_options d"
  by (simp add: common_options_def)

lemma dest_not_ack: "DHCPDISCOVER \<noteq> DHCPACK" "DHCPREQUEST \<noteq> DHCPACK"
  by (simp_all add: DHCPDISCOVER_def DHCPREQUEST_def DHCPACK_def)

lemma dhcp_request_process:
  assumes parse: "dhcp_parse stack pkt = Inr (Some (m, DHCPREQUEST))"
    and stack: "length stack = 548"
  shows "dhcp_server_process d ticks stack pkt =
     (case (if request_scan_mac (lease d) (chaddr m) 0 = DHCPS_MAX_IP
            then request_scan_free ticks (lease d) (chaddr m) 0 0
            else (request_scan_mac (lease d) (chaddr m) 0, lease d, 0)) of
        (yi, ls, k) \<Rightarrow>
          if yi = DHCPS_MAX_IP then Inr (d, None)
          else Inr (d\<lparr>lease := ls[yi := (ls ! yi)\<lparr>expiry :=
                       ucast (drop_bit 16 (ticks k + of_nat (DEFAULT_LEASE_TIME_S * 1000)))\<rparr>]\<rparr>,
                    Some \<lparr>payload =
                            take 243 (dhcp_reply_msg d m (of_nat (DHCPS_BASE_IP + yi)) DHCPACK) @
                            common_options d,
                          dest_addr = IP4_ADDR 255 255 255 255, dest_port = 68\<rparr>))"
proof -
  have lm: "length m = 548" using parse stack by (rule dhcp_parse_length)
  let ?m1 = "write_bytes (m[0 := 2]) 20 (u32_bytes (ip d))"
  have ch: "chaddr ?m1 = chaddr m" using lm by (rule chaddr_reply_prefix)
  have ne: "DHCPREQUEST \<noteq> DHCPDISCOVER" by (simp add: DHCPREQUEST_def DHCPDISCOVER_def)
  have send: "dhcp_send_reply d' (dhcp_reply_msg d m x DHCPACK, 243) DHCPREQUEST =
        \<lparr>payload = take 243 (dhcp_reply_msg d m x DHCPACK) @ common_options d',
         dest_addr = IP4_ADDR 255 255 255 255, dest_port = 68\<rparr>" for d' x
    using lm by (intro dhcp_send_reply_not_ack) (simp_all add: length_dhcp_reply_msg dest_not_ack)
  have fold: "write_bytes
       ((write_bytes ?m1 16 (u32_bytes (ip d)))[19 := x]) 240 [DHCP_OPT_MSG_TYPE, 1, t] =
       dhcp_reply_msg d m x t" for x t
    by (simp add: dhcp_reply_msg_def)
  show ?thesis
    unfolding dhcp_server_process_def parse
    by (simp add: ch ne Let_def opt_write_u8_def fold send common_options_lease
          split: prod.splits)
qed

lemma dhcp_discover_process:
  assumes parse: "dhcp_parse stack pkt = Inr (Some (m, DHCPDISCOVER))"
    and stack: "length stack = 548"
  shows "dhcp_server_process d ticks stack pkt =
     (case discover_scan (lease d) (chaddr m) (drop_bit 16 (ticks 0)) 0 (- 1) of
        (ls, yi0, best) \<Rightarrow>
          if (if yi0 = - 1 \<and> best \<noteq> - 1 then best else yi0) = - 1
          then Inr (d\<lparr>lease := ls\<rparr>, None)
          else Inr (d\<lparr>lease := ls\<rparr>,
                    Some \<lparr>payload =
                            take 243 (dhcp_reply_msg d m
                              (of_int (int DHCPS_BASE_IP +
                                 (if yi0 = - 1 \<and> best \<noteq> - 1 then best else yi0)))
                              DHCPOFFER) @ common_options d,
                          dest_addr = IP4_ADDR 255 255 255 255, dest_port = 68\<rparr>))"
proof -
  have lm: "length m = 548" using parse stack by (rule dhcp_parse_length)
  let ?m1 = "write_bytes (m[0 := 2]) 20 (u32_bytes (ip d))"
  have ch: "chaddr ?m1 = chaddr m" using lm by (rule chaddr_reply_prefix)
  have send: "dhcp_send_reply d' (dhcp_reply_msg d m x DHCPOFFER, 243) DHCPDISCOVER =
        \<lparr>payload = take 243 (dhcp_reply_msg d m x DHCPOFFER) @ common_options d',
         dest_addr = IP4_ADDR 255 255 255 255, dest_port = 68\<rparr>" for d' x
    using lm by (intro dhcp_send_reply_not_ack) (simp_all add: length_dhcp_reply_msg dest_not_ack)
  have fold: "write_bytes
       ((write_bytes ?m1 16 (u32_bytes (ip d)))[19 := x]) 240 [DHCP_OPT_MSG_TYPE, 1, t] =
       dhcp_reply_msg d m x t" for x t
    by (simp add: dhcp_reply_msg_def)
  have idem: "write_bytes (dhcp_reply_msg d m x t) 240 [DHCP_OPT_MSG_TYPE, 1, t] =
      dhcp_reply_msg d m x t" for x t
    unfolding dhcp_reply_msg_def using lm
    by (intro write_bytes_idem) (simp add: length_write_bytes u32_bytes_length)
  show ?thesis
    unfolding dhcp_server_process_def parse
    by (simp add: ch Let_def opt_write_u8_def fold idem send common_options_lease
          split: prod.splits)
qed

subsection \<open>The slot scans\<close>

lemma request_scan_mac_bound: "i \<le> DHCPS_MAX_IP \<Longrightarrow> request_scan_mac ls ch i \<le> DHCPS_MAX_IP"
  by (induction ls ch i rule: request_scan_mac.induct)
     (subst request_scan_mac.simps, simp)


lemma request_scan_mac_found:
  "request_scan_mac ls ch i = r \<Longrightarrow> r < DHCPS_MAX_IP \<Longrightarrow>
   i \<le> r \<and> memcmp_eq (mac (ls ! r)) ch MAC_LEN \<and>
   (\<forall>j. i \<le> j \<and> j < r \<longrightarrow> \<not> memcmp_eq (mac (ls ! j)) ch MAC_LEN)"
proof (induction ls ch i rule: request_scan_mac.induct)
  case (1 ls ch i)
  have i: "i < DHCPS_MAX_IP"
  proof (rule ccontr)
    assume "\<not> i < DHCPS_MAX_IP"
    with "1.prems" show False by (subst (asm) request_scan_mac.simps) simp
  qed
  show ?case
  proof (cases "memcmp_eq (mac (ls ! i)) ch MAC_LEN")
    case True
    with i "1.prems"(1) have "r = i" by (subst (asm) request_scan_mac.simps) simp
    with True show ?thesis by auto
  next
    case False
    with i "1.prems"(1) have rec: "request_scan_mac ls ch (i + 1) = r"
      by (subst (asm) request_scan_mac.simps) simp
    from "1.IH" [OF i False rec "1.prems"(2)]
    have ih: "i + 1 \<le> r" "memcmp_eq (mac (ls ! r)) ch MAC_LEN"
      "\<forall>j. i + 1 \<le> j \<and> j < r \<longrightarrow> \<not> memcmp_eq (mac (ls ! j)) ch MAC_LEN" by simp_all
    show ?thesis
    proof (intro conjI allI impI)
      show "i \<le> r" using ih(1) by simp
      show "memcmp_eq (mac (ls ! r)) ch MAC_LEN" by (rule ih(2))
      fix j assume j: "i \<le> j \<and> j < r"
      show "\<not> memcmp_eq (mac (ls ! j)) ch MAC_LEN"
      proof (cases "j = i")
        case True with False show ?thesis by simp
      next
        case False with j ih(3) show ?thesis by simp
      qed
    qed
  qed
qed

lemma request_scan_free_result:
  "request_scan_free ticks ls ch i k = (yi, ls', k') \<Longrightarrow> i \<le> DHCPS_MAX_IP \<Longrightarrow>
   (yi = DHCPS_MAX_IP \<and> ls' = ls) \<or>
   (i \<le> yi \<and> yi < DHCPS_MAX_IP \<and> ls' = ls[yi := (ls ! yi)\<lparr>mac := take MAC_LEN ch\<rparr>])"
proof (induction ticks ls ch i k rule: request_scan_free.induct)
  case (1 ticks ls ch i k)
  show ?case
  proof (cases "i < DHCPS_MAX_IP")
    case False
    with "1.prems" show ?thesis by (subst (asm) request_scan_free.simps) simp
  next
    case i: True
    show ?thesis
    proof (cases "memcmp_eq (mac (ls ! i)) (replicate 6 0) MAC_LEN \<or>
                  sint ((push_bit 16 (ucast (expiry (ls ! i)) :: u32) OR 0xFFFF) - ticks k) < 0")
      case True
      with i "1.prems"(1) show ?thesis
        by (subst (asm) request_scan_free.simps) (auto simp: Let_def split: if_splits)
    next
      case False
      with i "1.prems"(1) have rec: "request_scan_free ticks ls ch (i + 1) (k + 1) = (yi, ls', k')"
        by (subst (asm) request_scan_free.simps) (simp add: Let_def)
      from False have f1: "\<not> memcmp_eq (mac (ls ! i)) (replicate 6 0) MAC_LEN"
        and f2: "\<not> sint ((push_bit 16 (ucast (expiry (ls ! i)) :: u32) OR 0xFFFF) - ticks k) < 0"
        by simp_all
      from i have "i + 1 \<le> DHCPS_MAX_IP" by simp
      from "1.IH" [OF i refl f1 f2 rec this] show ?thesis by auto
    qed
  qed
qed

lemma lease_cleared: "(l :: dhcp_server_lease_t)\<lparr>mac := a, expiry := b\<rparr> = \<lparr>mac = a, expiry = b\<rparr>"
  by (cases l) simp

lemma discover_scan_frame:
  "discover_scan ls ch ctm i best = (ls', yi, best') \<Longrightarrow>
   length ls' = length ls \<and>
   (\<forall>j < length ls. ls' ! j = ls ! j \<or>
       (i \<le> j \<and> ls' ! j = \<lparr>mac = replicate MAC_LEN 0, expiry = 0\<rparr> \<and>
        \<not> mac_is_null (mac (ls ! j)) \<and>
        sint (ucast (ctm - ucast (expiry (ls ! j))) :: u16) > 0 \<and> expiry (ls ! j) \<noteq> 0))"
proof (induction ls ch ctm i best arbitrary: ls' yi best' rule: discover_scan.induct)
  case (1 ls ch ctm i best)
  show ?case
  proof (cases "i < DHCPS_MAX_IP")
    case False
    with "1.prems" show ?thesis by (subst (asm) discover_scan.simps) simp
  next
    case i: True
    show ?thesis
    proof (cases "memcmp_eq (mac (ls ! i)) ch MAC_LEN")
      case True
      with i "1.prems" show ?thesis by (subst (asm) discover_scan.simps) simp
    next
      case nomatch: False
      show ?thesis
      proof (cases "mac_is_null (mac (ls ! i))")
        case True
        with i nomatch "1.prems"
        have rec: "discover_scan ls ch ctm (i + 1) (if best = - 1 then int i else best) = (ls', yi, best')"
          by (subst (asm) discover_scan.simps) simp
        from "1.IH"(1) [OF i nomatch True rec] show ?thesis by auto
      next
        case nonnull: False
        show ?thesis
        proof (cases "sint (ucast (ctm - ucast (expiry (ls ! i))) :: u16) > 0 \<and> expiry (ls ! i) \<noteq> 0")
          case exp: True
          let ?ls = "ls[i := (ls ! i)\<lparr>mac := replicate MAC_LEN 0, expiry := 0\<rparr>]"
          from i nomatch nonnull exp "1.prems"
          have rec: "discover_scan ?ls ch ctm (i + 1) (if best = - 1 then int i else best) = (ls', yi, best')"
            by (subst (asm) discover_scan.simps) simp
          from "1.IH"(2) [OF i nomatch nonnull exp rec]
          have len: "length ls' = length ls"
            and fr: "\<forall>j < length ls. ls' ! j = ?ls ! j \<or>
               (i + 1 \<le> j \<and> ls' ! j = \<lparr>mac = replicate MAC_LEN 0, expiry = 0\<rparr> \<and>
                \<not> mac_is_null (mac (?ls ! j)) \<and>
                sint (ucast (ctm - ucast (expiry (?ls ! j))) :: u16) > 0 \<and> expiry (?ls ! j) \<noteq> 0)"
            by simp_all
          show ?thesis
          proof (intro conjI allI impI)
            show "length ls' = length ls" by (rule len)
            fix j assume j: "j < length ls"
            show "ls' ! j = ls ! j \<or>
               (i \<le> j \<and> ls' ! j = \<lparr>mac = replicate MAC_LEN 0, expiry = 0\<rparr> \<and>
                \<not> mac_is_null (mac (ls ! j)) \<and>
                sint (ucast (ctm - ucast (expiry (ls ! j))) :: u16) > 0 \<and> expiry (ls ! j) \<noteq> 0)"
            proof (cases "j = i")
              case True
              with j fr have "ls' ! i = ?ls ! i" by auto
              with True j have "ls' ! j = \<lparr>mac = replicate MAC_LEN 0, expiry = 0\<rparr>"
                by (simp add: lease_cleared)
              with True nonnull exp show ?thesis by simp
            next
              case False
              with j fr show ?thesis by auto
            qed
          qed
        next
          case noexp: False
          with i nomatch nonnull "1.prems"
          have rec: "discover_scan ls ch ctm (i + 1) best = (ls', yi, best')"
            by (subst (asm) discover_scan.simps) auto
          from "1.IH"(3) [OF i nomatch nonnull noexp rec] show ?thesis by auto
        qed
      qed
    qed
  qed
qed









subsection \<open>What a reply holds\<close>

lemma take_drop_take: "k + n \<le> N \<Longrightarrow> take n (drop k (take N xs)) = take n (drop k xs)"
proof -
  assume a: "k + n \<le> N"
  then have "min n (N - k) = n" by simp
  then show ?thesis by (simp add: drop_take)
qed

lemma take_drop_reply:
  assumes "length M = 548" "k + n \<le> 243"
  shows "take n (drop k (take 243 M @ co)) = take n (drop k M)"
proof -
  have l: "length (take 243 M) = 243" using assms by simp
  have "drop k (take 243 M @ co) = drop k (take 243 M) @ co" using l assms by simp
  moreover have "length (drop k (take 243 M)) = 243 - k" using l by simp
  ultimately have "take n (drop k (take 243 M @ co)) = take n (drop k (take 243 M))"
    using assms by simp
  then show ?thesis using take_drop_take [of k n 243 M] assms by simp
qed

lemma yiaddr_write: "length m1 = 548 \<Longrightarrow> take 4 (drop 16 (write_bytes m1 16 (u32_bytes v))) = u32_bytes v"
  by (simp add: write_bytes_def u32_bytes_length)

lemma yiaddr_last: "take 4 (drop 16 (w[19 := (x::u8)])) = (take 4 (drop 16 w))[3 := x]"
proof -
  have "drop 16 (w[19 := x]) = (drop 16 w)[19 - 16 := x]"
    by (rule drop_update_swap) simp
  then show ?thesis by (simp add: take_update_swap)
qed

lemma yiaddr_keep:
  "length w = 548 \<Longrightarrow>
   take 4 (drop 16 (write_bytes (w[19 := x]) 240 [c0, c1, c2])) = take 4 (drop 16 (w[19 := x]))"
  by (simp add: write_bytes_def take_drop_take)

lemma u32_bytes_last: "(u32_bytes v)[3 := x] = take 3 (u32_bytes v) @ [x]"
  by (simp add: u32_bytes_def)

lemma yiaddr_after_writes:
  assumes "length m1 = 548"
  shows "take 4 (drop 16 (write_bytes ((write_bytes m1 16 (u32_bytes v))[19 := x]) 240 [c0, c1, c2])) =
         take 3 (u32_bytes v) @ [x]"
proof -
  have lw: "length (write_bytes m1 16 (u32_bytes v)) = 548"
    using assms by (simp add: length_write_bytes u32_bytes_length)
  show ?thesis
    unfolding yiaddr_keep [OF lw] yiaddr_last yiaddr_write [OF assms] u32_bytes_last ..
qed

lemma yiaddr_dhcp_reply_msg:
  assumes lm: "length m = 548"
  shows "take 4 (drop 16 (dhcp_reply_msg d m x t)) = take 3 (u32_bytes (ip d)) @ [x]"
proof -
  have l1: "length (write_bytes (m[0 := 2]) 20 (u32_bytes (ip d))) = 548"
    using lm by (simp add: length_write_bytes u32_bytes_length)
  show ?thesis unfolding dhcp_reply_msg_def by (rule yiaddr_after_writes [OF l1])
qed

lemma msg_type_dhcp_reply_msg:
  assumes lm: "length m = 548"
  shows "take 3 (drop 240 (dhcp_reply_msg d m x t)) = [DHCP_OPT_MSG_TYPE, 1, t]"
  using lm by (simp add: dhcp_reply_msg_def write_bytes_def u32_bytes_length)

lemma reply_projections:
  assumes lm: "length m = 548"
  shows "yiaddr (take 243 (dhcp_reply_msg d m x t) @ co) = take 3 (u32_bytes (ip d)) @ [x]"
    and "take 3 (drop 240 (take 243 (dhcp_reply_msg d m x t) @ co)) = [DHCP_OPT_MSG_TYPE, 1, t]"
    and "drop 243 (take 243 (dhcp_reply_msg d m x t) @ co) = co"
proof -
  have l: "length (dhcp_reply_msg d m x t) = 548" using lm by (rule length_dhcp_reply_msg)
  have y: "16 + 4 \<le> (243::nat)" and o: "240 + 3 \<le> (243::nat)" by simp_all
  show "yiaddr (take 243 (dhcp_reply_msg d m x t) @ co) = take 3 (u32_bytes (ip d)) @ [x]"
    unfolding yiaddr_def
    by (rule trans [OF take_drop_reply [OF l y] yiaddr_dhcp_reply_msg [OF lm]])
  show "take 3 (drop 240 (take 243 (dhcp_reply_msg d m x t) @ co)) = [DHCP_OPT_MSG_TYPE, 1, t]"
    by (rule trans [OF take_drop_reply [OF l o] msg_type_dhcp_reply_msg [OF lm]])
  have "length (take 243 (dhcp_reply_msg d m x t)) = 243" using l by simp
  then show "drop 243 (take 243 (dhcp_reply_msg d m x t) @ co) = co"
    by (simp del: length_take)
qed

text \<open>Every reply goes to the broadcast address and carries the same option bytes.\<close>

lemma dhcp_reply_form:
  assumes p: "dhcp_server_process d ticks stack pkt = Inr (d', Some r)"
    and stack: "length stack = 548"
  obtains m t x t' where "dhcp_parse stack pkt = Inr (Some (m, t))"
    "r = \<lparr>payload = take 243 (dhcp_reply_msg d m x t') @ common_options d,
          dest_addr = IP4_ADDR 255 255 255 255, dest_port = 68\<rparr>"
proof (cases "dhcp_parse stack pkt")
  case (Inl f)
  with p show ?thesis by (simp add: dhcp_server_process_def)
next
  case (Inr q)
  show ?thesis
  proof (cases q)
    case None
    with Inr p show ?thesis by (simp add: dhcp_server_process_def)
  next
    case (Some mt)
    obtain m t where mt: "mt = (m, t)" by (cases mt)
    have parse: "dhcp_parse stack pkt = Inr (Some (m, t))" using Inr Some mt by simp
    consider (d) "t = DHCPDISCOVER" | (r) "t = DHCPREQUEST"
      | (o) "t \<noteq> DHCPDISCOVER" "t \<noteq> DHCPREQUEST" by blast
    then show ?thesis
    proof cases
      case d
      obtain ls yi0 best where sc:
        "discover_scan (lease d) (chaddr m) (drop_bit 16 (ticks 0)) 0 (- 1) = (ls, yi0, best)"
        by (cases "discover_scan (lease d) (chaddr m) (drop_bit 16 (ticks 0)) 0 (- 1)")
      from p have "r = \<lparr>payload = take 243 (dhcp_reply_msg d m
            (of_int (int DHCPS_BASE_IP + (if yi0 = - 1 \<and> best \<noteq> - 1 then best else yi0)))
            DHCPOFFER) @ common_options d,
          dest_addr = IP4_ADDR 255 255 255 255, dest_port = 68\<rparr>"
        unfolding dhcp_discover_process [OF parse [unfolded d] stack] sc prod.case
        by (simp split: if_splits)
      with parse show ?thesis by (rule that)
    next
      case r
      obtain yi ls k where sel:
        "(if request_scan_mac (lease d) (chaddr m) 0 = DHCPS_MAX_IP
          then request_scan_free ticks (lease d) (chaddr m) 0 0
          else (request_scan_mac (lease d) (chaddr m) 0, lease d, 0)) = (yi, ls, k)"
        by (cases "(if request_scan_mac (lease d) (chaddr m) 0 = DHCPS_MAX_IP
          then request_scan_free ticks (lease d) (chaddr m) 0 0
          else (request_scan_mac (lease d) (chaddr m) 0, lease d, 0))")
      from p have "r = \<lparr>payload = take 243 (dhcp_reply_msg d m
            (of_nat (DHCPS_BASE_IP + yi)) DHCPACK) @ common_options d,
          dest_addr = IP4_ADDR 255 255 255 255, dest_port = 68\<rparr>"
        unfolding dhcp_request_process [OF parse [unfolded r] stack] sel prod.case
        by (simp split: if_splits)
      with parse show ?thesis by (rule that)
    next
      case o
      with p parse show ?thesis by (simp add: dhcp_server_process_def)
    qed
  qed
qed

lemma dhcp_reply_broadcast_options:
  assumes p: "dhcp_server_process d ticks stack pkt = Inr (d', Some r)"
    and stack: "length stack = 548"
  shows "dest_addr r = IP4_ADDR 255 255 255 255 \<and> dest_port r = 68 \<and>
         drop 243 (payload r) = common_options d"
proof -
  from p stack obtain m t x t' where parse: "dhcp_parse stack pkt = Inr (Some (m, t))"
    and r: "r = \<lparr>payload = take 243 (dhcp_reply_msg d m x t') @ common_options d,
          dest_addr = IP4_ADDR 255 255 255 255, dest_port = 68\<rparr>"
    by (rule dhcp_reply_form)
  have lm: "length m = 548" using parse stack by (rule dhcp_parse_length)
  show ?thesis
    unfolding r udp_sendto.select_convs reply_projections(3) [OF lm] by simp
qed

text \<open>The server on \<open>dhcp_client_msg\<close>.\<close>

lemma dhcp_client_msg_split:
  "dhcp_client_msg hw t =
     ([1, 1, 6, 0] @ replicate 24 0 @ hw @ replicate (208 - length hw) 0) @
     [0x63, 0x82, 0x53, 0x63, 53, 1, t] @ [DHCP_OPT_END]"
  by (simp add: dhcp_client_msg_def DHCP_OPT_MSG_TYPE_def)

lemma length_dhcp_client_msg: "length hw = 6 \<Longrightarrow> length (dhcp_client_msg hw t) = 244"
  by (simp add: dhcp_client_msg_def)

lemma dhcp_parse_client_msg:
  assumes stack: "length stack = 548" and hw: "length hw = 6"
  shows "dhcp_parse stack (dhcp_client_msg hw t) =
           Inr (Some (dhcp_client_msg hw t @ drop 244 stack, t))"
proof -
  have fixed: "length ([1, 1, 6, 0] @ replicate 24 0 @ hw @ replicate (208 - length hw) (0::u8)) = 236"
    using hw by simp
  have copy: "fst (pbuf_copy_partial (dhcp_client_msg hw t) sizeof_dhcp_msg_t stack) =
      dhcp_client_msg hw t @ drop 244 stack"
    using stack length_dhcp_client_msg [OF hw, of t]
    by (simp add: pbuf_copy_partial_def sizeof_dhcp_msg_t_def)
  show ?thesis
    using dhcp_parse_type_first [OF stack fixed, of t "[DHCP_OPT_END]"]
    unfolding dhcp_client_msg_split [symmetric] copy .
qed

lemma chaddr_client_msg:
  "length hw = 6 \<Longrightarrow> chaddr (dhcp_client_msg hw t @ s) = hw @ replicate 10 0"
  by (simp add: chaddr_def dhcp_client_msg_def)

lemma flags_client_msg: "flags (dhcp_client_msg hw t @ s) = 0"
  by (simp add: flags_def dhcp_client_msg_def u16_load_def nth_append)

lemma ciaddr_client_msg: "ciaddr (dhcp_client_msg hw t @ s) = [0, 0, 0, 0]"
  by (simp add: ciaddr_def dhcp_client_msg_def numeral_eq_Suc)

section \<open>DHCP server: scenarios and claims\<close>

subsection \<open>The server of the access point on concrete datagrams\<close>

lemma replicate_MAC_LEN: "replicate MAC_LEN (0::u8) = [0, 0, 0, 0, 0, 0]"
  by (simp add: MAC_LEN_def numeral_eq_Suc)

lemma wifi_ap_dhcp_fields:
  "ip wifi_ap_dhcp = IP4_ADDR 192 168 4 1" "nm wifi_ap_dhcp = IP4_ADDR 255 255 255 0"
  "lease wifi_ap_dhcp =
     [\<lparr>mac = [0, 0, 0, 0, 0, 0], expiry = 0\<rparr>, \<lparr>mac = [0, 0, 0, 0, 0, 0], expiry = 0\<rparr>,
      \<lparr>mac = [0, 0, 0, 0, 0, 0], expiry = 0\<rparr>, \<lparr>mac = [0, 0, 0, 0, 0, 0], expiry = 0\<rparr>,
      \<lparr>mac = [0, 0, 0, 0, 0, 0], expiry = 0\<rparr>, \<lparr>mac = [0, 0, 0, 0, 0, 0], expiry = 0\<rparr>,
      \<lparr>mac = [0, 0, 0, 0, 0, 0], expiry = 0\<rparr>, \<lparr>mac = [0, 0, 0, 0, 0, 0], expiry = 0\<rparr>]"
  by (simp_all add: wifi_ap_dhcp_def dhcp_server_init_def replicate_MAC_LEN DHCPS_MAX_IP_def
        numeral_eq_Suc)

lemma u32_bytes_mask: "u32_bytes (IP4_ADDR 255 255 255 0) = [255, 255, 255, 0]"
  by (simp add: u32_bytes_def IP4_ADDR_def lwip_htonl_def LWIP_MAKEU32_def)

lemma gw_word_bytes:
  "ucast (drop_bit 24 (IP4_ADDR 192 168 4 1)) = (1 :: u8)"
  "ucast (drop_bit 16 (IP4_ADDR 192 168 4 1)) = (4 :: u8)"
  "ucast (drop_bit 8 (IP4_ADDR 192 168 4 1)) = (168 :: u8)"
  "ucast (IP4_ADDR 192 168 4 1) = (192 :: u8)"
  by (simp_all add: IP4_ADDR_def lwip_htonl_def LWIP_MAKEU32_def)

lemma common_options_wifi_ap:
  "common_options wifi_ap_dhcp =
     [54, 4, 1, 4, 168, 192, 1, 4, 255, 255, 255, 0, 3, 4, 192, 168, 4, 1, 6, 4, 192, 168, 4, 1,
      51, 4, 128, 81, 1, 0, 255]"
  unfolding common_options_def wifi_ap_dhcp_fields u32_bytes_gw u32_bytes_mask gw_word_bytes
    lease_time_bytes
  by (simp add: DHCP_OPT_SERVER_ID_def DHCP_OPT_SUBNET_MASK_def DHCP_OPT_ROUTER_def
        DHCP_OPT_DNS_def DHCP_OPT_IP_LEASE_TIME_def DHCP_OPT_END_def)

lemma dhcp_parse_client_msg_zero_stack:
  "length hw = 6 \<Longrightarrow>
   dhcp_parse (replicate 548 0) (dhcp_client_msg hw t) =
     Inr (Some (dhcp_client_msg hw t @ replicate 304 0, t))"
  using dhcp_parse_client_msg [of "replicate 548 0" hw t] by simp

lemma discover_client_msg:
  assumes hw: "length hw = 6"
    and sc: "discover_scan (lease d) (hw @ replicate 10 0) (drop_bit 16 (ticks 0)) 0 (- 1) =
             (ls, yi0, best)"
    and yi: "(if yi0 = - 1 \<and> best \<noteq> - 1 then best else yi0) = yi" "yi \<noteq> - 1"
  shows "dhcp_server_process d ticks (replicate 548 0) (dhcp_client_msg hw DHCPDISCOVER) =
     Inr (d\<lparr>lease := ls\<rparr>,
          Some \<lparr>payload =
                  take 243 (dhcp_reply_msg d (dhcp_client_msg hw DHCPDISCOVER @ replicate 304 0)
                              (of_int (int DHCPS_BASE_IP + yi)) DHCPOFFER) @ common_options d,
                dest_addr = IP4_ADDR 255 255 255 255, dest_port = 68\<rparr>)"
  unfolding dhcp_discover_process [OF dhcp_parse_client_msg_zero_stack [OF hw] length_replicate]
    chaddr_client_msg [OF hw] sc prod.case yi
  using yi(2) by simp

lemma request_client_msg:
  assumes hw: "length hw = 6"
    and sel: "(if request_scan_mac (lease d) (hw @ replicate 10 0) 0 = DHCPS_MAX_IP
               then request_scan_free ticks (lease d) (hw @ replicate 10 0) 0 0
               else (request_scan_mac (lease d) (hw @ replicate 10 0) 0, lease d, 0)) = (yi, ls, k)"
    and yi: "yi \<noteq> DHCPS_MAX_IP"
  shows "dhcp_server_process d ticks (replicate 548 0) (dhcp_client_msg hw DHCPREQUEST) =
     Inr (d\<lparr>lease := ls[yi := (ls ! yi)\<lparr>expiry :=
                 ucast (drop_bit 16 (ticks k + of_nat (DEFAULT_LEASE_TIME_S * 1000)))\<rparr>]\<rparr>,
          Some \<lparr>payload =
                  take 243 (dhcp_reply_msg d (dhcp_client_msg hw DHCPREQUEST @ replicate 304 0)
                              (of_nat (DHCPS_BASE_IP + yi)) DHCPACK) @ common_options d,
                dest_addr = IP4_ADDR 255 255 255 255, dest_port = 68\<rparr>)"
  unfolding dhcp_request_process [OF dhcp_parse_client_msg_zero_stack [OF hw] length_replicate]
    chaddr_client_msg [OF hw] sel prod.case
  using yi by simp

lemma replicate_6: "replicate 6 (0::u8) = [0, 0, 0, 0, 0, 0]"
  by (simp add: numeral_eq_Suc)

lemmas scan_eval = discover_scan.simps request_scan_mac.simps request_scan_free.simps
  DHCPS_MAX_IP_def memcmp_eq_def mac_is_null_def MAC_LEN_def replicate_6

lemma lease_expiry_1000:
  "ucast (drop_bit 16 ((1000 :: u32) + of_nat (DEFAULT_LEASE_TIME_S * 1000))) = (1318 :: u16)"
  by (simp add: DEFAULT_LEASE_TIME_S_def)

lemma request_first_on_init:
  "(if request_scan_mac (lease wifi_ap_dhcp) ([2, 0, 0, 0, 0, 1] @ replicate 10 0) 0 = DHCPS_MAX_IP
    then request_scan_free ticks (lease wifi_ap_dhcp) ([2, 0, 0, 0, 0, 1] @ replicate 10 0) 0 0
    else (request_scan_mac (lease wifi_ap_dhcp) ([2, 0, 0, 0, 0, 1] @ replicate 10 0) 0,
          lease wifi_ap_dhcp, 0)) =
   (0, (lease wifi_ap_dhcp)[0 := \<lparr>mac = [2, 0, 0, 0, 0, 1], expiry = 0\<rparr>], 0)"
  unfolding wifi_ap_dhcp_fields by (simp add: scan_eval)

lemma ack_first_on_init:
  "dhcp_server_process wifi_ap_dhcp (\<lambda>k. 1000) (replicate 548 0)
     (dhcp_client_msg [2, 0, 0, 0, 0, 1] DHCPREQUEST) =
   Inr (wifi_ap_dhcp\<lparr>lease := (lease wifi_ap_dhcp)[0 := \<lparr>mac = [2, 0, 0, 0, 0, 1], expiry = 1318\<rparr>]\<rparr>,
        Some \<lparr>payload =
                take 243 (dhcp_reply_msg wifi_ap_dhcp
                            (dhcp_client_msg [2, 0, 0, 0, 0, 1] DHCPREQUEST @ replicate 304 0)
                            16 DHCPACK) @ common_options wifi_ap_dhcp,
              dest_addr = IP4_ADDR 255 255 255 255, dest_port = 68\<rparr>)"
proof -
  have hw: "length [2, 0, 0, 0, 0, 1 :: u8] = 6" by simp
  have yi: "(0::nat) \<noteq> DHCPS_MAX_IP" by (simp add: DHCPS_MAX_IP_def)
  have x: "(of_nat (DHCPS_BASE_IP + 0) :: u8) = 16" by (simp add: DHCPS_BASE_IP_def)
  have ls: "((lease wifi_ap_dhcp)[0 := \<lparr>mac = [2, 0, 0, 0, 0, 1], expiry = 0\<rparr>])
      [0 := ((lease wifi_ap_dhcp)[0 := \<lparr>mac = [2, 0, 0, 0, 0, 1], expiry = 0\<rparr>] ! 0)
              \<lparr>expiry := 1318\<rparr>] =
      (lease wifi_ap_dhcp)[0 := \<lparr>mac = [2, 0, 0, 0, 0, 1], expiry = 1318\<rparr>]"
    unfolding wifi_ap_dhcp_fields by simp
  show ?thesis
    unfolding request_client_msg [OF hw request_first_on_init yi] lease_expiry_1000 x ls ..
qed

lemma length_client_msg_copied:
  "length hw = 6 \<Longrightarrow> length (dhcp_client_msg hw t @ replicate 304 0) = 548"
  by (simp add: length_dhcp_client_msg)

lemma reply_options:
  assumes lm: "length m = 548"
  shows "drop 240 (take 243 (dhcp_reply_msg d m x t) @ co) = [DHCP_OPT_MSG_TYPE, 1, t] @ co"
proof -
  let ?p = "take 243 (dhcp_reply_msg d m x t) @ co"
  have "drop 240 ?p = take 3 (drop 240 ?p) @ drop 3 (drop 240 ?p)"
    by (rule append_take_drop_id [symmetric])
  also have "drop 3 (drop 240 ?p) = drop 243 ?p"
    by (simp only: drop_drop) simp
  finally show ?thesis
    unfolding reply_projections(2) [OF lm] reply_projections(3) [OF lm] .
qed

lemma yiaddr_wifi_ap_reply:
  "length hw = 6 \<Longrightarrow>
   yiaddr (take 243 (dhcp_reply_msg wifi_ap_dhcp (dhcp_client_msg hw t @ replicate 304 0) x t') @ co) =
     [192, 168, 4, x]"
  unfolding reply_projections(1) [OF length_client_msg_copied] wifi_ap_dhcp_fields u32_bytes_gw
  by simp

lemma broadcast_not_first_pool_address: "IP4_ADDR 255 255 255 255 \<noteq> IP4_ADDR 192 168 4 16"
  by (simp add: IP4_ADDR_def lwip_htonl_def LWIP_MAKEU32_def)

text \<open>
  Claim C1, at the REQUEST of a client that asks for no broadcast and has no address yet:
  flags and \<open>ciaddr\<close> are zero, the server binds the first address of the pool and
  acknowledges 192.168.4.16, and the datagram goes to 255.255.255.255, port 68, not to
  192.168.4.16. The test of \<open>extracted_msg_type\<close> against \<open>DHCPACK\<close> before the unicast
  rule compares the type of the received message, which is \<open>DHCPREQUEST\<close> here.
\<close>

theorem dhcp_ack_goes_to_broadcast:
  "flags (dhcp_client_msg [2, 0, 0, 0, 0, 1] DHCPREQUEST @ replicate 304 0) AND PP_HTONS 0x8000 = 0 \<and>
   ciaddr (dhcp_client_msg [2, 0, 0, 0, 0, 1] DHCPREQUEST @ replicate 304 0) = [0, 0, 0, 0] \<and>
   dhcp_server_process wifi_ap_dhcp (\<lambda>k. 1000) (replicate 548 0)
     (dhcp_client_msg [2, 0, 0, 0, 0, 1] DHCPREQUEST) =
   Inr (wifi_ap_dhcp\<lparr>lease := (lease wifi_ap_dhcp)[0 := \<lparr>mac = [2, 0, 0, 0, 0, 1], expiry = 1318\<rparr>]\<rparr>,
        Some \<lparr>payload =
                take 243 (dhcp_reply_msg wifi_ap_dhcp
                            (dhcp_client_msg [2, 0, 0, 0, 0, 1] DHCPREQUEST @ replicate 304 0)
                            16 DHCPACK) @ common_options wifi_ap_dhcp,
              dest_addr = IP4_ADDR 255 255 255 255, dest_port = 68\<rparr>) \<and>
   yiaddr (take 243 (dhcp_reply_msg wifi_ap_dhcp
                       (dhcp_client_msg [2, 0, 0, 0, 0, 1] DHCPREQUEST @ replicate 304 0)
                       16 DHCPACK) @ common_options wifi_ap_dhcp) = [192, 168, 4, 16] \<and>
   IP4_ADDR 255 255 255 255 \<noteq> IP4_ADDR 192 168 4 16"
proof -
  have hw: "length [2, 0, 0, 0, 0, 1 :: u8] = 6" by simp
  show ?thesis
    unfolding flags_client_msg ciaddr_client_msg yiaddr_wifi_ap_reply [OF hw]
    using ack_first_on_init broadcast_not_first_pool_address by simp
qed

lemma discover_on_init:
  "discover_scan (lease wifi_ap_dhcp) ([2, 0, 0, 0, 0, 1] @ replicate 10 0) ctm 0 (- 1) =
     (lease wifi_ap_dhcp, - 1, 0)"
  unfolding wifi_ap_dhcp_fields by (simp add: scan_eval)

lemma offer_first_on_init:
  "dhcp_server_process wifi_ap_dhcp ticks (replicate 548 0)
     (dhcp_client_msg [2, 0, 0, 0, 0, 1] DHCPDISCOVER) =
   Inr (wifi_ap_dhcp,
        Some \<lparr>payload =
                take 243 (dhcp_reply_msg wifi_ap_dhcp
                            (dhcp_client_msg [2, 0, 0, 0, 0, 1] DHCPDISCOVER @ replicate 304 0)
                            16 DHCPOFFER) @ common_options wifi_ap_dhcp,
              dest_addr = IP4_ADDR 255 255 255 255, dest_port = 68\<rparr>)"
proof -
  have hw: "length [2, 0, 0, 0, 0, 1 :: u8] = 6" by simp
  have yi: "(if (- 1 :: int) = - 1 \<and> (0 :: int) \<noteq> - 1 then 0 else - 1) = (0 :: int)"
    "(0 :: int) \<noteq> - 1" by simp_all
  have x: "(of_int (int DHCPS_BASE_IP + 0) :: u8) = 16" by (simp add: DHCPS_BASE_IP_def)
  have same: "wifi_ap_dhcp\<lparr>lease := lease wifi_ap_dhcp\<rparr> = wifi_ap_dhcp" by simp
  show ?thesis
    unfolding discover_client_msg [OF hw discover_on_init yi] x same ..
qed

text \<open>
  Claim C2, at the DISCOVER and at the REQUEST of a first client: the bytes of the OFFER
  and of the ACK from the message type option on. The server identifier is written as
  1.4.168.192 and the lease time as 80 51 01 00 (hexadecimal), 86400 with its least
  significant byte first; mask, router and DNS server are as the claim says.
\<close>

theorem dhcp_reply_option_bytes:
  "dhcp_server_process wifi_ap_dhcp (\<lambda>k. 1000) (replicate 548 0)
     (dhcp_client_msg [2, 0, 0, 0, 0, 1] DHCPDISCOVER) =
   Inr (wifi_ap_dhcp,
        Some \<lparr>payload =
                take 243 (dhcp_reply_msg wifi_ap_dhcp
                            (dhcp_client_msg [2, 0, 0, 0, 0, 1] DHCPDISCOVER @ replicate 304 0)
                            16 DHCPOFFER) @ common_options wifi_ap_dhcp,
              dest_addr = IP4_ADDR 255 255 255 255, dest_port = 68\<rparr>) \<and>
   drop 240 (take 243 (dhcp_reply_msg wifi_ap_dhcp
                         (dhcp_client_msg [2, 0, 0, 0, 0, 1] DHCPDISCOVER @ replicate 304 0)
                         16 DHCPOFFER) @ common_options wifi_ap_dhcp) =
     [53, 1, 2, 54, 4, 1, 4, 168, 192, 1, 4, 255, 255, 255, 0, 3, 4, 192, 168, 4, 1,
      6, 4, 192, 168, 4, 1, 51, 4, 0x80, 0x51, 0x01, 0x00, 255] \<and>
   dhcp_server_process wifi_ap_dhcp (\<lambda>k. 1000) (replicate 548 0)
     (dhcp_client_msg [2, 0, 0, 0, 0, 1] DHCPREQUEST) =
   Inr (wifi_ap_dhcp\<lparr>lease := (lease wifi_ap_dhcp)[0 := \<lparr>mac = [2, 0, 0, 0, 0, 1], expiry = 1318\<rparr>]\<rparr>,
        Some \<lparr>payload =
                take 243 (dhcp_reply_msg wifi_ap_dhcp
                            (dhcp_client_msg [2, 0, 0, 0, 0, 1] DHCPREQUEST @ replicate 304 0)
                            16 DHCPACK) @ common_options wifi_ap_dhcp,
              dest_addr = IP4_ADDR 255 255 255 255, dest_port = 68\<rparr>) \<and>
   drop 240 (take 243 (dhcp_reply_msg wifi_ap_dhcp
                         (dhcp_client_msg [2, 0, 0, 0, 0, 1] DHCPREQUEST @ replicate 304 0)
                         16 DHCPACK) @ common_options wifi_ap_dhcp) =
     [53, 1, 5, 54, 4, 1, 4, 168, 192, 1, 4, 255, 255, 255, 0, 3, 4, 192, 168, 4, 1,
      6, 4, 192, 168, 4, 1, 51, 4, 0x80, 0x51, 0x01, 0x00, 255]"
proof -
  have hw: "length [2, 0, 0, 0, 0, 1 :: u8] = 6" by simp
  note lm = length_client_msg_copied [OF hw]
  show ?thesis
    unfolding reply_options [OF lm]
    using offer_first_on_init [of "\<lambda>k. 1000"] ack_first_on_init
    by (simp add: common_options_wifi_ap DHCP_OPT_MSG_TYPE_def DHCPOFFER_def DHCPACK_def)
qed






lemma offer_after_expiry:
  "dhcp_server_process
     (wifi_ap_dhcp\<lparr>lease := (lease wifi_ap_dhcp)
        [0 := \<lparr>mac = [2, 0, 0, 0, 0, 1], expiry = 1318\<rparr>,
         1 := \<lparr>mac = [2, 0, 0, 0, 0, 2], expiry = 1318\<rparr>]\<rparr>)
     (\<lambda>k. 91750400) (replicate 548 0) (dhcp_client_msg [2, 0, 0, 0, 0, 3] DHCPDISCOVER) =
   Inr (wifi_ap_dhcp,
        Some \<lparr>payload =
                take 243 (dhcp_reply_msg
                  (wifi_ap_dhcp\<lparr>lease := (lease wifi_ap_dhcp)
                     [0 := \<lparr>mac = [2, 0, 0, 0, 0, 1], expiry = 1318\<rparr>,
                      1 := \<lparr>mac = [2, 0, 0, 0, 0, 2], expiry = 1318\<rparr>]\<rparr>)
                  (dhcp_client_msg [2, 0, 0, 0, 0, 3] DHCPDISCOVER @ replicate 304 0) 16 DHCPOFFER) @
                common_options
                  (wifi_ap_dhcp\<lparr>lease := (lease wifi_ap_dhcp)
                     [0 := \<lparr>mac = [2, 0, 0, 0, 0, 1], expiry = 1318\<rparr>,
                      1 := \<lparr>mac = [2, 0, 0, 0, 0, 2], expiry = 1318\<rparr>]\<rparr>),
              dest_addr = IP4_ADDR 255 255 255 255, dest_port = 68\<rparr>)"
proof -
  let ?d = "wifi_ap_dhcp\<lparr>lease := (lease wifi_ap_dhcp)
        [0 := \<lparr>mac = [2, 0, 0, 0, 0, 1], expiry = 1318\<rparr>,
         1 := \<lparr>mac = [2, 0, 0, 0, 0, 2], expiry = 1318\<rparr>]\<rparr>"
  have hw: "length [2, 0, 0, 0, 0, 3 :: u8] = 6" by simp
  have sc: "discover_scan (lease ?d) ([2, 0, 0, 0, 0, 3] @ replicate 10 0)
              (drop_bit 16 (91750400 :: u32)) 0 (- 1) = (lease wifi_ap_dhcp, - 1, 0)"
    unfolding wifi_ap_dhcp_fields by (simp add: scan_eval)
  have yi: "(if (- 1 :: int) = - 1 \<and> (0 :: int) \<noteq> - 1 then 0 else - 1) = (0 :: int)"
    "(0 :: int) \<noteq> - 1" by simp_all
  have x: "(of_int (int DHCPS_BASE_IP + 0) :: u8) = 16" by (simp add: DHCPS_BASE_IP_def)
  have same: "?d\<lparr>lease := lease wifi_ap_dhcp\<rparr> = wifi_ap_dhcp" by simp
  show ?thesis
    unfolding discover_client_msg [OF hw sc yi] x same ..
qed

text \<open>
  Claim C8 fails twice. A DISCOVER of a first client on the cleared table is offered
  192.168.4.16, the address of slot 0, which was free, and the table is as before: the
  MAC of slot 0 is still all-zero. And a DISCOVER that arrives when the leases of two
  other clients have run out is offered slot 0 and clears slot 1 too.
\<close>

theorem discover_binds_mac_counterexample:
  "dhcp_server_process wifi_ap_dhcp (\<lambda>k. 1000) (replicate 548 0)
     (dhcp_client_msg [2, 0, 0, 0, 0, 1] DHCPDISCOVER) =
   Inr (wifi_ap_dhcp,
        Some \<lparr>payload =
                take 243 (dhcp_reply_msg wifi_ap_dhcp
                            (dhcp_client_msg [2, 0, 0, 0, 0, 1] DHCPDISCOVER @ replicate 304 0)
                            16 DHCPOFFER) @ common_options wifi_ap_dhcp,
              dest_addr = IP4_ADDR 255 255 255 255, dest_port = 68\<rparr>) \<and>
   mac (lease wifi_ap_dhcp ! 0) = [0, 0, 0, 0, 0, 0] \<and>
   take MAC_LEN (chaddr (dhcp_client_msg [2, 0, 0, 0, 0, 1] DHCPDISCOVER @ replicate 304 0)) =
     [2, 0, 0, 0, 0, 1] \<and>
   dhcp_server_process
     (wifi_ap_dhcp\<lparr>lease := (lease wifi_ap_dhcp)
        [0 := \<lparr>mac = [2, 0, 0, 0, 0, 1], expiry = 1318\<rparr>,
         1 := \<lparr>mac = [2, 0, 0, 0, 0, 2], expiry = 1318\<rparr>]\<rparr>)
     (\<lambda>k. 91750400) (replicate 548 0) (dhcp_client_msg [2, 0, 0, 0, 0, 3] DHCPDISCOVER) =
   Inr (wifi_ap_dhcp,
        Some \<lparr>payload =
                take 243 (dhcp_reply_msg
                  (wifi_ap_dhcp\<lparr>lease := (lease wifi_ap_dhcp)
                     [0 := \<lparr>mac = [2, 0, 0, 0, 0, 1], expiry = 1318\<rparr>,
                      1 := \<lparr>mac = [2, 0, 0, 0, 0, 2], expiry = 1318\<rparr>]\<rparr>)
                  (dhcp_client_msg [2, 0, 0, 0, 0, 3] DHCPDISCOVER @ replicate 304 0) 16 DHCPOFFER) @
                common_options
                  (wifi_ap_dhcp\<lparr>lease := (lease wifi_ap_dhcp)
                     [0 := \<lparr>mac = [2, 0, 0, 0, 0, 1], expiry = 1318\<rparr>,
                      1 := \<lparr>mac = [2, 0, 0, 0, 0, 2], expiry = 1318\<rparr>]\<rparr>),
              dest_addr = IP4_ADDR 255 255 255 255, dest_port = 68\<rparr>) \<and>
   (lease wifi_ap_dhcp)
        [0 := \<lparr>mac = [2, 0, 0, 0, 0, 1], expiry = 1318\<rparr>,
         1 := \<lparr>mac = [2, 0, 0, 0, 0, 2], expiry = 1318\<rparr>] ! 1 =
     \<lparr>mac = [2, 0, 0, 0, 0, 2], expiry = 1318\<rparr> \<and>
   lease wifi_ap_dhcp ! 1 = \<lparr>mac = [0, 0, 0, 0, 0, 0], expiry = 0\<rparr>"
proof -
  have hw: "length [2, 0, 0, 0, 0, 1 :: u8] = 6" by simp
  have a: "mac (lease wifi_ap_dhcp ! 0) = [0, 0, 0, 0, 0, 0]"
    "lease wifi_ap_dhcp ! 1 = \<lparr>mac = [0, 0, 0, 0, 0, 0], expiry = 0\<rparr>"
    "(lease wifi_ap_dhcp)
        [0 := \<lparr>mac = [2, 0, 0, 0, 0, 1], expiry = 1318\<rparr>,
         1 := \<lparr>mac = [2, 0, 0, 0, 0, 2], expiry = 1318\<rparr>] ! 1 =
     \<lparr>mac = [2, 0, 0, 0, 0, 2], expiry = 1318\<rparr>"
    unfolding wifi_ap_dhcp_fields by simp_all
  have c: "take MAC_LEN (chaddr (dhcp_client_msg [2, 0, 0, 0, 0, 1] DHCPDISCOVER @ replicate 304 0)) =
     [2, 0, 0, 0, 0, 1]"
    unfolding chaddr_client_msg [OF hw] by (simp add: MAC_LEN_def)
  show ?thesis
    using offer_first_on_init [of "\<lambda>k. 1000"] offer_after_expiry a c
    by (intro conjI)
qed

text \<open>
  Claim C8, amended: a DISCOVER writes the client's MAC into no slot. Every entry of the
  lease table is left as it was, or it held a MAC that is not all-zero with a lease that
  has run out on the clock of the callback, and is cleared: MAC and expiry zero.
\<close>

theorem discover_leaves_or_clears:
  assumes parse: "dhcp_parse stack pkt = Inr (Some (m, DHCPDISCOVER))"
    and stack: "length stack = 548"
  shows "\<exists>d' r. dhcp_server_process d ticks stack pkt = Inr (d', r) \<and>
     ip d' = ip d \<and> nm d' = nm d \<and> length (lease d') = length (lease d) \<and>
     (\<forall>j < length (lease d).
        lease d' ! j = lease d ! j \<or>
        lease d' ! j = \<lparr>mac = replicate MAC_LEN 0, expiry = 0\<rparr> \<and>
        \<not> mac_is_null (mac (lease d ! j)) \<and>
        0 < sint (ucast (drop_bit 16 (ticks 0) - ucast (expiry (lease d ! j))) :: u16) \<and>
        expiry (lease d ! j) \<noteq> 0)"
proof -
  obtain ls yi0 best where sc:
    "discover_scan (lease d) (chaddr m) (drop_bit 16 (ticks 0)) 0 (- 1) = (ls, yi0, best)"
    by (cases "discover_scan (lease d) (chaddr m) (drop_bit 16 (ticks 0)) 0 (- 1)")
  have "\<exists>r. dhcp_server_process d ticks stack pkt = Inr (d\<lparr>lease := ls\<rparr>, r)"
    unfolding dhcp_discover_process [OF parse stack] sc prod.case by simp
  then obtain r where p: "dhcp_server_process d ticks stack pkt = Inr (d\<lparr>lease := ls\<rparr>, r)" ..
  from discover_scan_frame [OF sc]
  have "length ls = length (lease d)"
    and "\<forall>j < length (lease d).
        ls ! j = lease d ! j \<or>
        ls ! j = \<lparr>mac = replicate MAC_LEN 0, expiry = 0\<rparr> \<and>
        \<not> mac_is_null (mac (lease d ! j)) \<and>
        0 < sint (ucast (drop_bit 16 (ticks 0) - ucast (expiry (lease d ! j))) :: u16) \<and>
        expiry (lease d ! j) \<noteq> 0"
    by auto
  with p show ?thesis by simp
qed

theorem discover_leaves_or_clears_witness:
  "\<exists>d' r. dhcp_server_process
       (wifi_ap_dhcp\<lparr>lease := (lease wifi_ap_dhcp)
          [0 := \<lparr>mac = [2, 0, 0, 0, 0, 1], expiry = 1318\<rparr>,
           1 := \<lparr>mac = [2, 0, 0, 0, 0, 2], expiry = 1318\<rparr>]\<rparr>)
       (\<lambda>k. 91750400) (replicate 548 0) (dhcp_client_msg [2, 0, 0, 0, 0, 3] DHCPDISCOVER) =
     Inr (d', r) \<and>
     d' = wifi_ap_dhcp \<and>
     (\<forall>j < 8.
        lease d' ! j =
          (lease wifi_ap_dhcp)
            [0 := \<lparr>mac = [2, 0, 0, 0, 0, 1], expiry = 1318\<rparr>,
             1 := \<lparr>mac = [2, 0, 0, 0, 0, 2], expiry = 1318\<rparr>] ! j \<or>
        lease d' ! j = \<lparr>mac = replicate MAC_LEN 0, expiry = 0\<rparr> \<and>
        \<not> mac_is_null (mac ((lease wifi_ap_dhcp)
            [0 := \<lparr>mac = [2, 0, 0, 0, 0, 1], expiry = 1318\<rparr>,
             1 := \<lparr>mac = [2, 0, 0, 0, 0, 2], expiry = 1318\<rparr>] ! j)))"
proof -
  let ?d = "wifi_ap_dhcp\<lparr>lease := (lease wifi_ap_dhcp)
          [0 := \<lparr>mac = [2, 0, 0, 0, 0, 1], expiry = 1318\<rparr>,
           1 := \<lparr>mac = [2, 0, 0, 0, 0, 2], expiry = 1318\<rparr>]\<rparr>"
  have hw: "length [2, 0, 0, 0, 0, 3 :: u8] = 6" by simp
  have len: "length (lease ?d) = 8" unfolding wifi_ap_dhcp_fields by simp
  from discover_leaves_or_clears
    [OF dhcp_parse_client_msg_zero_stack [OF hw] length_replicate, of ?d "\<lambda>k. 91750400"]
  show ?thesis
    unfolding offer_after_expiry len by auto
qed

subsection \<open>Which slot the scans select\<close>














subsection \<open>The shape of the lease table\<close>

text \<open>
  The lease table keeps its \<open>DHCPS_MAX_IP\<close> entries and each MAC its \<open>MAC_LEN\<close> bytes,
  whatever the server receives.
\<close>

lemma length_chaddr: "length m = 548 \<Longrightarrow> length (take MAC_LEN (chaddr m)) = MAC_LEN"
  by (simp add: chaddr_def MAC_LEN_def)

lemma dhcp_server_process_shape:
  assumes len: "length (lease d) = DHCPS_MAX_IP"
    and wf: "\<forall>j < DHCPS_MAX_IP. length (mac (lease d ! j)) = MAC_LEN"
    and stack: "length stack = 548"
    and p: "dhcp_server_process d ticks stack pkt = Inr (d', r)"
  shows "length (lease d') = DHCPS_MAX_IP \<and>
         (\<forall>j < DHCPS_MAX_IP. length (mac (lease d' ! j)) = MAC_LEN)"
proof (cases "dhcp_parse stack pkt")
  case (Inl f)
  with p show ?thesis by (simp add: dhcp_server_process_def)
next
  case (Inr q)
  show ?thesis
  proof (cases q)
    case None
    with Inr p have "d' = d" by (simp add: dhcp_server_process_def)
    with len wf show ?thesis by simp
  next
    case (Some mt)
    obtain m t where mt: "mt = (m, t)" by (cases mt)
    have parse: "dhcp_parse stack pkt = Inr (Some (m, t))" using Inr Some mt by simp
    have lm: "length m = 548" using parse stack by (rule dhcp_parse_length)
    consider (d) "t = DHCPDISCOVER" | (r) "t = DHCPREQUEST"
      | (o) "t \<noteq> DHCPDISCOVER" "t \<noteq> DHCPREQUEST" by blast
    then show ?thesis
    proof cases
      case d
      obtain ls yi0 best where sc:
        "discover_scan (lease d) (chaddr m) (drop_bit 16 (ticks 0)) 0 (- 1) = (ls, yi0, best)"
        by (cases "discover_scan (lease d) (chaddr m) (drop_bit 16 (ticks 0)) 0 (- 1)")
      from p have d': "d' = d\<lparr>lease := ls\<rparr>"
        unfolding dhcp_discover_process [OF parse [unfolded d] stack] sc prod.case
        by (simp split: if_splits)
      from discover_scan_frame [OF sc]
      have l: "length ls = length (lease d)"
        and fr: "\<And>j. j < length (lease d) \<Longrightarrow>
           ls ! j = lease d ! j \<or> ls ! j = \<lparr>mac = replicate MAC_LEN 0, expiry = 0\<rparr>"
        by auto
      have "length (mac (ls ! j)) = MAC_LEN" if "j < DHCPS_MAX_IP" for j
        using fr [of j] that len wf by auto
      with l len d' show ?thesis by simp
    next
      case r
      obtain yi ls k where sel:
        "(if request_scan_mac (lease d) (chaddr m) 0 = DHCPS_MAX_IP
          then request_scan_free ticks (lease d) (chaddr m) 0 0
          else (request_scan_mac (lease d) (chaddr m) 0, lease d, 0)) = (yi, ls, k)"
        by (cases "(if request_scan_mac (lease d) (chaddr m) 0 = DHCPS_MAX_IP
          then request_scan_free ticks (lease d) (chaddr m) 0 0
          else (request_scan_mac (lease d) (chaddr m) 0, lease d, 0))")
      have ls: "ls = lease d \<or>
          (\<exists>y. ls = (lease d)[y := (lease d ! y)\<lparr>mac := take MAC_LEN (chaddr m)\<rparr>])"
      proof (cases "request_scan_mac (lease d) (chaddr m) 0 = DHCPS_MAX_IP")
        case True
        with sel have "request_scan_free ticks (lease d) (chaddr m) 0 0 = (yi, ls, k)" by simp
        from request_scan_free_result [OF this] show ?thesis by auto
      next
        case False
        with sel show ?thesis by simp
      qed
      have lls: "length ls = DHCPS_MAX_IP" using ls len by auto
      have wls: "length (mac (ls ! j)) = MAC_LEN" if j: "j < DHCPS_MAX_IP" for j
      proof -
        from ls show ?thesis
        proof
          assume "ls = lease d"
          with wf j show ?thesis by simp
        next
          assume "\<exists>y. ls = (lease d)[y := (lease d ! y)\<lparr>mac := take MAC_LEN (chaddr m)\<rparr>]"
          then obtain y where y: "ls = (lease d)[y := (lease d ! y)\<lparr>mac := take MAC_LEN (chaddr m)\<rparr>]" ..
          show ?thesis
          proof (cases "j = y")
            case True
            with y j len have "mac (ls ! j) = take MAC_LEN (chaddr m)" by simp
            then show ?thesis unfolding length_chaddr [OF lm] by (simp only: length_chaddr [OF lm])
          next
            case False
            with y wf j show ?thesis by simp
          qed
        qed
      qed
      from p have "d' = d \<or> d' = d\<lparr>lease := ls[yi := (ls ! yi)\<lparr>expiry :=
            ucast (drop_bit 16 (ticks k + of_nat (DEFAULT_LEASE_TIME_S * 1000)))\<rparr>]\<rparr>"
        unfolding dhcp_request_process [OF parse [unfolded r] stack] sel prod.case
        by (simp split: if_splits)
      then show ?thesis
      proof
        assume "d' = d"
        with len wf show ?thesis by simp
      next
        let ?e = "ucast (drop_bit 16 (ticks k + of_nat (DEFAULT_LEASE_TIME_S * 1000))) :: u16"
        assume d': "d' = d\<lparr>lease := ls[yi := (ls ! yi)\<lparr>expiry := ?e\<rparr>]\<rparr>"
        have "length (mac (ls[yi := (ls ! yi)\<lparr>expiry := ?e\<rparr>] ! j)) = MAC_LEN"
          if j: "j < DHCPS_MAX_IP" for j
          using wls [OF j] j lls by (cases "j = yi") simp_all
        with d' lls show ?thesis by simp
      qed
    next
      case o
      with p parse have "d' = d" by (simp add: dhcp_server_process_def)
      with len wf show ?thesis by simp
    qed
  qed
qed

lemma dhcp_server_run_shape:
  "length (lease d) = DHCPS_MAX_IP \<Longrightarrow>
   \<forall>j < DHCPS_MAX_IP. length (mac (lease d ! j)) = MAC_LEN \<Longrightarrow>
   \<forall>x \<in> set ins. length (fst (snd x)) = 548 \<Longrightarrow>
   dhcp_server_run d ins = Inr d' \<Longrightarrow>
   length (lease d') = DHCPS_MAX_IP \<and> (\<forall>j < DHCPS_MAX_IP. length (mac (lease d' ! j)) = MAC_LEN)"
proof (induction ins arbitrary: d)
  case Nil
  then show ?case by simp
next
  case (Cons a ins)
  obtain ticks stack pkt where a: "a = (ticks, stack, pkt)" by (cases a)
  from Cons.prems(3) a have stack: "length stack = 548" by simp
  from Cons.prems(4) obtain d1 r where
    p: "dhcp_server_process d ticks stack pkt = Inr (d1, r)" and
    rest: "dhcp_server_run d1 ins = Inr d'"
    unfolding a by (auto split: sum.splits)
  from dhcp_server_process_shape [OF Cons.prems(1,2) stack p]
  have s1: "length (lease d1) = DHCPS_MAX_IP"
    "\<forall>j < DHCPS_MAX_IP. length (mac (lease d1 ! j)) = MAC_LEN" by simp_all
  from Cons.prems(3) have "\<forall>x \<in> set ins. length (fst (snd x)) = 548" by simp
  from Cons.IH [OF s1 this rest] show ?case .
qed

lemma dhcp_server_reachable_shape:
  assumes "\<forall>x \<in> set ins. length (fst (snd x)) = 548"
    and "dhcp_server_run (dhcp_server_init ip_addr nm_addr) ins = Inr d"
  shows "length (lease d) = DHCPS_MAX_IP \<and> (\<forall>j < DHCPS_MAX_IP. length (mac (lease d ! j)) = MAC_LEN)"
proof -
  have "length (lease (dhcp_server_init ip_addr nm_addr)) = DHCPS_MAX_IP"
    "\<forall>j < DHCPS_MAX_IP. length (mac (lease (dhcp_server_init ip_addr nm_addr) ! j)) = MAC_LEN"
    by (simp_all add: dhcp_server_init_def)
  from dhcp_server_run_shape [OF this assms] show ?thesis .
qed





end
